theory Spec2Isabelle
  imports Main "HOL-Library.Sublist"
begin

section \<open>Go standard-library functions used by the runtime\<close>

text \<open>
  Go strings are byte sequences and so are HOL strings. \<open>fmt.Sprintf\<close> with \<open>%s\<close>
  verbs is written out as concatenation of the template's literal pieces with the
  arguments. A \<open>net.IP\<close> is represented by the text its \<open>String()\<close> method prints, which
  is what every \<open>%s\<close> of the runtime sees; \<open>ip.Equal\<close> is equality of that text.
\<close>

type_synonym IP = string

definition digitChar :: "nat \<Rightarrow> char" where
  "digitChar n = char_of (48 + n)"

function natToDec :: "nat \<Rightarrow> string" where
  "natToDec n = (if n < 10 then [digitChar n] else natToDec (n div 10) @ [digitChar (n mod 10)])"
  by pat_completeness auto
termination
  by (relation "measure id") auto

declare natToDec.simps [simp del]

text \<open>\<open>strconv.Itoa\<close>, also the \<open>%d\<close> verb: decimal text, with a minus sign below zero.\<close>

definition Itoa :: "int \<Rightarrow> string" where
  "Itoa i = (if i < 0 then CHR ''-'' # natToDec (nat (- i)) else natToDec (nat i))"

text \<open>\<open>strings.HasPrefix\<close>.\<close>

definition HasPrefix :: "string \<Rightarrow> string \<Rightarrow> bool" where
  "HasPrefix s p = (take (length p) s = p)"

text \<open>
  \<open>strings.Split\<close>: the pieces of \<open>s\<close> between the non-overlapping occurrences of
  \<open>sep\<close>, found left to right; one piece more than there are occurrences. The
  accumulator holds the piece being read. (With an empty separator Go splits into UTF-8
  sequences; the runtime never does that, and here the bytes are split.)
\<close>

function splitFrom :: "string \<Rightarrow> string \<Rightarrow> string \<Rightarrow> string list" where
  "splitFrom sep acc [] = (if sep = [] \<and> acc = [] then [] else [acc])"
| "splitFrom sep acc (c # cs) =
     (if sep = [] then (if acc = [] then [] else [acc]) @ splitFrom sep [c] cs
      else if HasPrefix (c # cs) sep
      then acc # splitFrom sep [] (drop (length sep) (c # cs))
      else splitFrom sep (acc @ [c]) cs)"
  by pat_completeness auto
termination
  by (relation "measure (\<lambda>(sep, acc, s). length s)") auto

definition Split :: "string \<Rightarrow> string \<Rightarrow> string list" where
  "Split s sep = splitFrom sep [] s"

text \<open>
  \<open>strings.Replace(s, old, new, -1)\<close>: every non-overlapping occurrence of \<open>old\<close>,
  left to right, replaced by \<open>new\<close>. (With an empty \<open>old\<close> Go inserts \<open>new\<close> around
  every UTF-8 sequence; here around every byte.)
\<close>

function replaceFrom :: "string \<Rightarrow> string \<Rightarrow> string \<Rightarrow> string" where
  "replaceFrom old new [] = []"
| "replaceFrom old new (c # cs) =
     (if old = [] then c # new @ replaceFrom old new cs
      else if HasPrefix (c # cs) old
      then new @ replaceFrom old new (drop (length old) (c # cs))
      else c # replaceFrom old new cs)"
  by pat_completeness auto
termination
  by (relation "measure (\<lambda>(old, new, s). length s)") auto

definition ReplaceAll :: "string \<Rightarrow> string \<Rightarrow> string \<Rightarrow> string" where
  "ReplaceAll s old new = (if old = [] then new @ replaceFrom old new s else replaceFrom old new s)"

text \<open>\<open>strings.Contains\<close>.\<close>

fun Contains :: "string \<Rightarrow> string \<Rightarrow> bool" where
  "Contains [] sub = (sub = [])"
| "Contains (c # cs) sub = (HasPrefix (c # cs) sub \<or> Contains cs sub)"

section \<open>Parsing and comparing Kubernetes versions\<close>

definition isDigit :: "char \<Rightarrow> bool" where
  "isDigit c = (48 \<le> (of_char c :: nat) \<and> (of_char c :: nat) \<le> 57)"

definition parseNat :: "string \<Rightarrow> nat option" where
  "parseNat s =
     (if s \<noteq> [] \<and> list_all isDigit s
      then Some (foldl (\<lambda>n c. 10 * n + ((of_char c :: nat) - 48)) 0 s)
      else None)"

definition parseVersion :: "string \<Rightarrow> (nat \<times> nat \<times> nat) option" where
  "parseVersion v =
     (case Split (if HasPrefix v ''v'' then drop 1 v else v) ''.'' of
        [a, b, c] \<Rightarrow>
          (case (parseNat a, parseNat b, parseNat c) of
             (Some x, Some y, Some z) \<Rightarrow> Some (x, y, z)
           | _ \<Rightarrow> None)
      | _ \<Rightarrow> None)"

fun versionGE :: "nat \<times> nat \<times> nat \<Rightarrow> nat \<times> nat \<times> nat \<Rightarrow> bool" where
  "versionGE (a1, a2, a3) (b1, b2, b3) =
     (b1 < a1 \<or> (a1 = b1 \<and> (b2 < a2 \<or> (a2 = b2 \<and> b3 \<le> a3))))"

text \<open>
  Modelled from the spec: \<open>versionUtils.Version.Compare\<close> of \<open>utils/version\<close>, which is
  not among the sources. The spec has the version policy compare a semantic version
  string against the threshold: a version at or above it gives true, one below gives
  false, and a version that cannot be read is an error with which the caller falls
  back to the lower command family, so the boolean is false then. A version is
  \<open>major.minor.patch\<close> in decimal, with the \<open>v\<close> the runtime's constants carry or
  without it, as in the spec's scenarios.
\<close>

definition Compare :: "string \<Rightarrow> string \<Rightarrow> bool \<times> string option" where
  "Compare v ov =
     (case (parseVersion v, parseVersion ov) of
        (Some a, Some b) \<Rightarrow> (versionGE a b, None)
      | _ \<Rightarrow> (False, Some (''failed to parse version '' @ v @ '' or '' @ ov)))"

section \<open>Constants and command templates of the Kubernetes runtime\<close>

definition V1991 :: string where "V1991 = ''v1.19.1''"
definition V1992 :: string where "V1992 = ''v1.19.2''"
definition V1150 :: string where "V1150 = ''v1.15.0''"

text \<open>Each template is a function of the arguments its \<open>%s\<close> verbs take, in order.\<close>

definition RemoteAddEtcHosts :: "string \<Rightarrow> string \<Rightarrow> string" where
  "RemoteAddEtcHosts a b = ''cat /etc/hosts |grep '' @ [CHR 0x27] @ a @ [CHR 0x27] @ '' || echo ''
     @ [CHR 0x27] @ b @ [CHR 0x27] @ '' >> /etc/hosts''"

definition RemoteUpdateEtcHosts :: "string \<Rightarrow> string \<Rightarrow> string" where
  "RemoteUpdateEtcHosts a b = ''sed '' @ [CHR 0x22] @ ''s/'' @ a @ ''/'' @ b @ ''/g'' @ [CHR 0x22]
     @ '' < /etc/hosts > hosts && cp -f hosts /etc/hosts''"

definition RemoteCopyKubeConfig :: string where
  "RemoteCopyKubeConfig =
     ''rm -rf .kube/config && mkdir -p /root/.kube && cp /etc/kubernetes/admin.conf /root/.kube/config''"

definition RemoteNonRootCopyKubeConfig :: string where
  "RemoteNonRootCopyKubeConfig =
     ''rm -rf ${HOME}/.kube/config && mkdir -p ${HOME}/.kube && cp /etc/kubernetes/admin.conf ${HOME}/.kube/config && chown $(id -u):$(id -g) ${HOME}/.kube/config''"

definition RemoteReplaceKubeConfig :: "string \<Rightarrow> string \<Rightarrow> string \<Rightarrow> string \<Rightarrow> string \<Rightarrow> string" where
  "RemoteReplaceKubeConfig a b c d e =
     ''grep -qF '' @ [CHR 0x22] @ ''apiserver.cluster.local'' @ [CHR 0x22] @ '' '' @ a
     @ ''  && sed -i '' @ [CHR 0x27] @ ''s/apiserver.cluster.local/'' @ b @ ''/'' @ [CHR 0x27] @ '' '' @ c
     @ '' && sed -i '' @ [CHR 0x27] @ ''s/apiserver.cluster.local/'' @ d @ ''/'' @ [CHR 0x27] @ '' '' @ e"

definition RemoteJoinMasterConfig :: "string \<Rightarrow> string \<Rightarrow> string" where
  "RemoteJoinMasterConfig a b = ''echo '' @ [CHR 0x22] @ a @ [CHR 0x22] @ '' > '' @ b @ ''/etc/kubeadm.yml''"

definition InitMaster115Lower :: "string \<Rightarrow> string" where
  "InitMaster115Lower a = ''kubeadm init --config='' @ a @ ''/etc/kubeadm.yml --experimental-upload-certs''"

definition JoinMaster115Lower :: "string \<Rightarrow> string \<Rightarrow> string \<Rightarrow> string \<Rightarrow> string" where
  "JoinMaster115Lower a b c d = ''kubeadm join '' @ a @ '':6443 --token '' @ b
     @ '' --discovery-token-ca-cert-hash '' @ c @ '' --experimental-control-plane --certificate-key '' @ d"

definition JoinNode115Lower :: "string \<Rightarrow> string \<Rightarrow> string \<Rightarrow> string" where
  "JoinNode115Lower a b c = ''kubeadm join '' @ a @ '':6443 --token '' @ b
     @ '' --discovery-token-ca-cert-hash '' @ c"

definition InitMaser115Upper :: "string \<Rightarrow> string" where
  "InitMaser115Upper a = ''kubeadm init --config='' @ a @ ''/etc/kubeadm.yml --upload-certs''"

definition JoinMaster115Upper :: "string \<Rightarrow> string" where
  "JoinMaster115Upper a = ''kubeadm join --config='' @ a @ ''/etc/kubeadm.yml''"

definition JoinNode115Upper :: "string \<Rightarrow> string" where
  "JoinNode115Upper a = ''kubeadm join --config='' @ a @ ''/etc/kubeadm.yml''"

definition RemoveKubeConfig :: string where
  "RemoveKubeConfig = ''rm -rf /usr/bin/kube* && rm -rf ~/.kube/''"

definition RemoteCleanMasterOrNode :: "string \<Rightarrow> string" where
  "RemoteCleanMasterOrNode a = ''if which kubeadm;then kubeadm reset -f '' @ a @ '';fi && '' @ [CHR 0x5C, CHR 0x0A]
     @ ''modprobe -r ipip  && lsmod && '' @ [CHR 0x5C, CHR 0x0A]
     @ ''rm -rf /etc/kubernetes/ && '' @ [CHR 0x5C, CHR 0x0A]
     @ ''rm -rf /etc/systemd/system/kubelet.service.d && rm -rf /etc/systemd/system/kubelet.service && '' @ [CHR 0x5C, CHR 0x0A]
     @ ''rm -rf /usr/bin/kubeadm && rm -rf /usr/bin/kubelet-pre-start.sh && '' @ [CHR 0x5C, CHR 0x0A]
     @ ''rm -rf /usr/bin/kubelet && rm -rf /usr/bin/crictl && '' @ [CHR 0x5C, CHR 0x0A]
     @ ''rm -rf /etc/cni && rm -rf /opt/cni && '' @ [CHR 0x5C, CHR 0x0A]
     @ ''rm -rf /var/lib/etcd && rm -rf /var/etcd '' @ [CHR 0x0A]"

definition RemoteRemoveAPIServerEtcHost :: "string \<Rightarrow> string" where
  "RemoteRemoveAPIServerEtcHost a = ''sed -i '' @ [CHR 0x22] @ ''/'' @ a @ ''/d'' @ [CHR 0x22] @ '' /etc/hosts''"

definition RemoteRemoveRegistryCerts :: "string \<Rightarrow> string \<Rightarrow> string" where
  \<comment> \<open>\<open>"rm -rf " + DockerCertDir + "/%s*"\<close>, with the constant \<open>DockerCertDir\<close> as first argument\<close>
  "RemoteRemoveRegistryCerts dockerCertDir a = ''rm -rf '' @ dockerCertDir @ ''/'' @ a @ ''*''"

definition RemoveLvscareStaticPod :: string where
  "RemoveLvscareStaticPod = ''rm -rf  /etc/kubernetes/manifests/kube-sealyun-lvscare*''"

definition CreateLvscareStaticPod :: "string \<Rightarrow> string" where
  "CreateLvscareStaticPod a = ''mkdir -p /etc/kubernetes/manifests && echo '' @ [CHR 0x27] @ a @ [CHR 0x27]
     @ '' > /etc/kubernetes/manifests/kube-sealyun-lvscare.yaml''"

definition KubeDeleteNode :: "string \<Rightarrow> string" where
  "KubeDeleteNode a = ''kubectl delete node '' @ a"

definition AdminConf :: string where "AdminConf = ''admin.conf''"
definition ControllerConf :: string where "ControllerConf = ''controller-manager.conf''"
definition SchedulerConf :: string where "SchedulerConf = ''scheduler.conf''"

definition KUBECONTROLLERCONFIGFILE :: string where
  "KUBECONTROLLERCONFIGFILE = ''/etc/kubernetes/controller-manager.conf''"
definition KUBESCHEDULERCONFIGFILE :: string where
  "KUBESCHEDULERCONFIGFILE = ''/etc/kubernetes/scheduler.conf''"

type_synonym CommandType = string

definition InitMaster :: CommandType where "InitMaster = ''initMaster''"
definition JoinMaster :: CommandType where "JoinMaster = ''joinMaster''"
definition JoinNode :: CommandType where "JoinNode = ''joinNode''"


section \<open>The runtime, its collaborators and the calls it makes\<close>

text \<open>
  The fields of the runtime that the modelled methods read or write. A getter of the
  source (\<open>k.getRootfs()\<close>, \<open>k.cluster.GetMaster0IP()\<close>, ...) whose body is not among
  the sources is the field of the same name; \<open>getJoinToken\<close>, \<open>getTokenCaCertHash\<close> and
  \<open>getCertificateKey\<close> read \<open>JoinToken\<close>, \<open>TokenCaCertHash\<close> and \<open>CertificateKey\<close>.
  \<open>Vlog\<close> is a machine integer that is only ever printed.
\<close>

record RegistryConfig =
  Domain :: string
  IP :: IP
  Port :: string
  Username :: string
  Password :: string

record Cluster =
  GetMaster0IP :: IP
  GetMasterIPList :: "IP list"
  GetNodeIPList :: "IP list"

record JoinConfiguration =
  APIServerEndpoint :: string
  JoinAdvertiseAddress :: IP

record KubeletConfiguration =
  CgroupDriver :: string

record Runtime =
  Vlog :: int
  RegConfig :: RegistryConfig
  cluster :: Cluster
  getRootfs :: string
  getBasePath :: string
  getPKIPath :: string
  getCertsDir :: string
  getKubeVersion :: string
  getAPIServerDomain :: string
  getVIP :: IP
  getCertSANS :: "string list"
  getSvcCIDR :: string
  JoinToken :: string
  TokenCaCertHash :: string
  CertificateKey :: string
  JoinConfiguration :: JoinConfiguration
  KubeletConfiguration :: KubeletConfiguration

text \<open>
  Every call that leaves the runtime is an event, recorded in program order: the calls on
  the remote executor (\<open>getHostSSHClient\<close>, \<open>Cmd\<close>, \<open>CmdAsync\<close>, \<open>Copy\<close>, \<open>CmdToString\<close>),
  the methods of the runtime whose bodies are not among the sources, the state lock, and
  the accesses to the shared join configuration made while rendering it.
\<close>

datatype event =
    EvGetHostSSHClient IP
  | EvCmd IP string
  | EvCmdAsync IP "string list"
  | EvCopy IP string string
  | EvCmdToString IP string string
  | EvMergeKubeadmConfig
  | EvWaitSSHReady nat "IP list"
  | EvCopyStaticFiles "IP list"
  | EvGetRemoteHostName IP
  | EvGetCgroupDriverFromShell IP
  | EvGetLocalHostAddresses
  | EvLock
  | EvUnlock
  | EvSetAPIServerEndpoint string
  | EvSetJoinAdvertiseAddress IP
  | EvSetCgroupDriver string
  | EvMarshal

record SSHClient =
  User :: string

text \<open>
  What is outside the sources is a parameter: the package constants \<open>SeaHub\<close>,
  \<open>DockerCertDir\<close>, \<open>KubernetesConfigDir\<close>, \<open>KubeDefaultCertPath\<close> and \<open>ROOT\<close>, the pure
  helpers that only build text or decode it, and the replies of the outside world.
  \<open>strings.TrimSpace\<close> and \<open>strings.ToLower\<close> of the Go library, which work by the Unicode
  tables, are parameters as well: what is proved holds for whatever they compute. A
  reply may depend on everything that happened before, so each replying function takes
  the events so far. A Go result \<open>(v, err)\<close> of the outside is \<open>Inr v\<close> or \<open>Inl\<close> of the
  error's message; an \<open>error\<close> result is \<open>Inr ()\<close> or \<open>Inl\<close> of the message.
\<close>

record World =
  IsInContainer :: bool
  SeaHub :: string
  DockerCertDir :: string
  KubernetesConfigDir :: string
  KubeDefaultCertPath :: string
  ROOT :: string
  addRegistryDomainToHosts :: "Runtime \<Rightarrow> string"
  RemoteCerts :: "string list \<Rightarrow> IP \<Rightarrow> string \<Rightarrow> string \<Rightarrow> string \<Rightarrow> string"
  GenLoginCommand :: "Runtime \<Rightarrow> string"
  Repo :: "RegistryConfig \<Rightarrow> string"
  LvsStaticPodYaml :: "IP \<Rightarrow> IP list \<Rightarrow> string \<Rightarrow> string"
  MarshalWithDelimiter :: "JoinConfiguration \<Rightarrow> KubeletConfiguration \<Rightarrow> string + string"
  IsLocalIP :: "IP \<Rightarrow> string list \<Rightarrow> bool"
  decodeMaster0Output :: "string \<Rightarrow> Runtime \<Rightarrow> Runtime"
  TrimSpace :: "string \<Rightarrow> string"
  ToLower :: "string \<Rightarrow> string"
  reply_getHostSSHClient :: "event list \<Rightarrow> IP \<Rightarrow> string + SSHClient"
  reply_Cmd :: "event list \<Rightarrow> IP \<Rightarrow> string \<Rightarrow> string + string"
  reply_CmdAsync :: "event list \<Rightarrow> IP \<Rightarrow> string list \<Rightarrow> string + unit"
  reply_Copy :: "event list \<Rightarrow> IP \<Rightarrow> string \<Rightarrow> string \<Rightarrow> string + unit"
  reply_CmdToString :: "event list \<Rightarrow> IP \<Rightarrow> string \<Rightarrow> string \<Rightarrow> string + string"
  reply_MergeKubeadmConfig :: "event list \<Rightarrow> Runtime \<Rightarrow> string + Runtime"
  reply_WaitSSHReady :: "event list \<Rightarrow> nat \<Rightarrow> IP list \<Rightarrow> string + unit"
  reply_CopyStaticFiles :: "event list \<Rightarrow> IP list \<Rightarrow> string + unit"
  reply_getRemoteHostName :: "event list \<Rightarrow> IP \<Rightarrow> string + string"
  reply_getCgroupDriverFromShell :: "event list \<Rightarrow> IP \<Rightarrow> string + string"
  reply_GetLocalHostAddresses :: "event list \<Rightarrow> string + string list"

text \<open>The state a method runs in: the runtime \<open>k\<close> and the events so far.\<close>

record State =
  rt :: Runtime
  trace :: "event list"

definition emit :: "event \<Rightarrow> State \<Rightarrow> State" where
  "emit e s = s\<lparr>trace := trace s @ [e]\<rparr>"

text \<open>
  A method of the runtime ends with its result, with a Go \<open>error\<close> (its message), or in
  a panic, which no caller here recovers.
\<close>

datatype failure = Error string | Panic string

text \<open>The calls on the outside world: the reply for the events so far, and the event.\<close>

definition getHostSSHClient :: "World \<Rightarrow> IP \<Rightarrow> State \<Rightarrow> (string + SSHClient) \<times> State" where
  "getHostSSHClient w ip s = (reply_getHostSSHClient w (trace s) ip, emit (EvGetHostSSHClient ip) s)"

definition Cmd :: "World \<Rightarrow> IP \<Rightarrow> string \<Rightarrow> State \<Rightarrow> (string + string) \<times> State" where
  "Cmd w ip c s = (reply_Cmd w (trace s) ip c, emit (EvCmd ip c) s)"

definition CmdAsync :: "World \<Rightarrow> IP \<Rightarrow> string list \<Rightarrow> State \<Rightarrow> (string + unit) \<times> State" where
  "CmdAsync w ip cs s = (reply_CmdAsync w (trace s) ip cs, emit (EvCmdAsync ip cs) s)"

definition Copy :: "World \<Rightarrow> IP \<Rightarrow> string \<Rightarrow> string \<Rightarrow> State \<Rightarrow> (string + unit) \<times> State" where
  "Copy w ip src dst s = (reply_Copy w (trace s) ip src dst, emit (EvCopy ip src dst) s)"

definition CmdToString :: "World \<Rightarrow> IP \<Rightarrow> string \<Rightarrow> string \<Rightarrow> State \<Rightarrow> (string + string) \<times> State" where
  "CmdToString w ip c split s =
     (reply_CmdToString w (trace s) ip c split, emit (EvCmdToString ip c split) s)"

definition MergeKubeadmConfig :: "World \<Rightarrow> State \<Rightarrow> (string + unit) \<times> State" where
  "MergeKubeadmConfig w s =
     (case reply_MergeKubeadmConfig w (trace s) (rt s) of
        Inl e \<Rightarrow> (Inl e, emit EvMergeKubeadmConfig s)
      | Inr k \<Rightarrow> (Inr (), emit EvMergeKubeadmConfig (s\<lparr>rt := k\<rparr>)))"

definition WaitSSHReady :: "World \<Rightarrow> nat \<Rightarrow> IP list \<Rightarrow> State \<Rightarrow> (string + unit) \<times> State" where
  "WaitSSHReady w n hosts s = (reply_WaitSSHReady w (trace s) n hosts, emit (EvWaitSSHReady n hosts) s)"

definition CopyStaticFiles :: "World \<Rightarrow> IP list \<Rightarrow> State \<Rightarrow> (string + unit) \<times> State" where
  "CopyStaticFiles w hosts s = (reply_CopyStaticFiles w (trace s) hosts, emit (EvCopyStaticFiles hosts) s)"

definition getRemoteHostName :: "World \<Rightarrow> IP \<Rightarrow> State \<Rightarrow> (string + string) \<times> State" where
  "getRemoteHostName w ip s = (reply_getRemoteHostName w (trace s) ip, emit (EvGetRemoteHostName ip) s)"

definition getCgroupDriverFromShell :: "World \<Rightarrow> IP \<Rightarrow> State \<Rightarrow> (string + string) \<times> State" where
  "getCgroupDriverFromShell w ip s =
     (reply_getCgroupDriverFromShell w (trace s) ip, emit (EvGetCgroupDriverFromShell ip) s)"

definition GetLocalHostAddresses :: "World \<Rightarrow> State \<Rightarrow> (string + string list) \<times> State" where
  "GetLocalHostAddresses w s = (reply_GetLocalHostAddresses w (trace s), emit EvGetLocalHostAddresses s)"

text \<open>
  \<open>errgroup\<close>: one task per host, started by \<open>eg.Go\<close>; the context is dropped at every
  call site, so no task is cancelled and \<open>eg.Wait\<close> returns the first error once all
  tasks have ended. The tasks are run here one after the other in the order of the
  list, which is one of the schedules the Go program has; the first error is the first
  in that order. A panic in a task ends the program.
\<close>

fun errgroup :: "(IP \<Rightarrow> State \<Rightarrow> (failure + unit) \<times> State) \<Rightarrow> IP list \<Rightarrow> State
    \<Rightarrow> (failure + unit) \<times> State" where
  "errgroup f [] s = (Inr (), s)"
| "errgroup f (h # hs) s =
     (case f h s of
        (Inl (Panic m), s1) \<Rightarrow> (Inl (Panic m), s1)
      | (Inl (Error e), s1) \<Rightarrow>
          (case errgroup f hs s1 of
             (Inl (Panic m), s2) \<Rightarrow> (Inl (Panic m), s2)
           | (_, s2) \<Rightarrow> (Inl (Error e), s2))
      | (Inr _, s1) \<Rightarrow> errgroup f hs s1)"

section \<open>Building the kubeadm command\<close>

definition vlogToStr :: "int \<Rightarrow> string" where
  "vlogToStr vlog = '' -v '' @ Itoa vlog"

text \<open>
  \<open>Command\<close>: the map of the three lower-family commands, overwritten by the upper
  family when the version compares at or above \<open>V1150\<close>; a failed comparison is logged
  and its boolean used all the same. A role that is not a key of the map gives the
  empty string. Log output is not part of the model.
\<close>

definition Command :: "World \<Rightarrow> Runtime \<Rightarrow> string \<Rightarrow> CommandType \<Rightarrow> string" where
  "Command w k version name =
     (let cmds = [InitMaster \<mapsto> InitMaster115Lower (getRootfs k),
                  JoinMaster \<mapsto> JoinMaster115Lower (GetMaster0IP (cluster k)) (JoinToken k)
                                  (TokenCaCertHash k) (CertificateKey k),
                  JoinNode \<mapsto> JoinNode115Lower (getVIP k) (JoinToken k) (TokenCaCertHash k)];
          (cmp, err) = Compare version V1150;
          cmds = (if cmp
                  then cmds(InitMaster \<mapsto> InitMaser115Upper (getRootfs k),
                            JoinMaster \<mapsto> JoinMaster115Upper (getRootfs k),
                            JoinNode \<mapsto> JoinNode115Upper (getRootfs k))
                  else cmds)
      in case cmds name of
           None \<Rightarrow> []
         | Some v \<Rightarrow>
             if IsInContainer w then v @ vlogToStr (Vlog k) @ '' --ignore-preflight-errors=all''
             else if name = InitMaster \<or> name = JoinMaster
             then v @ vlogToStr (Vlog k) @ '' --ignore-preflight-errors=SystemVerification''
             else v @ vlogToStr (Vlog k))"


section \<open>Joining masters\<close>

definition getAPIServerHost :: "IP \<Rightarrow> string \<Rightarrow> string" where
  "getAPIServerHost ipAddr APIServer = ipAddr @ '' '' @ APIServer"

definition JoinMasterCommands :: "World \<Rightarrow> Runtime \<Rightarrow> IP \<Rightarrow> string \<Rightarrow> string \<Rightarrow> string list" where
  "JoinMasterCommands w k master joinCmd hostname =
     (let apiServerHost = getAPIServerHost (GetMaster0IP (cluster k)) (getAPIServerDomain k);
          cmdAddRegistryHosts = addRegistryDomainToHosts w k;
          certCMD = RemoteCerts w (getCertSANS k) master hostname (getSvcCIDR k) [];
          cmdAddHosts = RemoteAddEtcHosts apiServerHost apiServerHost;
          cmdAddRegistryHosts =
            (if Domain (RegConfig k) \<noteq> SeaHub w
             then cmdAddRegistryHosts @ '' && ''
                  @ RemoteAddEtcHosts (IP (RegConfig k) @ '' '' @ SeaHub w)
                      (IP (RegConfig k) @ '' '' @ SeaHub w)
             else cmdAddRegistryHosts);
          joinCommands = [cmdAddRegistryHosts, certCMD, cmdAddHosts];
          joinCommands =
            (if Username (RegConfig k) \<noteq> [] \<and> Password (RegConfig k) \<noteq> []
             then joinCommands @ [GenLoginCommand w k]
             else joinCommands);
          cmdUpdateHosts = RemoteUpdateEtcHosts apiServerHost
                             (getAPIServerHost master (getAPIServerDomain k))
      in joinCommands @ [joinCmd, cmdUpdateHosts, RemoteCopyKubeConfig])"

text \<open>The task \<open>sendFileToHosts\<close> starts for one host, and the fan-out over the hosts.\<close>

definition sendFileToHost :: "World \<Rightarrow> string \<Rightarrow> string \<Rightarrow> IP \<Rightarrow> State \<Rightarrow> (failure + unit) \<times> State" where
  "sendFileToHost w src dst node s =
     (case getHostSSHClient w node s of
        (Inl err, s1) \<Rightarrow> (Inl (Error (''failed to send file: '' @ err)), s1)
      | (Inr ssh, s1) \<Rightarrow>
          (case Copy w node src dst s1 of
             (Inl err, s2) \<Rightarrow> (Inl (Error (''failed to send file: '' @ err)), s2)
           | (Inr _, s2) \<Rightarrow> (Inr (), s2)))"

definition sendFileToHosts :: "World \<Rightarrow> IP list \<Rightarrow> string \<Rightarrow> string \<Rightarrow> State \<Rightarrow> (failure + unit) \<times> State" where
  "sendFileToHosts w Hosts src dst s = errgroup (sendFileToHost w src dst) Hosts s"

definition sendKubeConfigFile :: "World \<Rightarrow> IP list \<Rightarrow> string \<Rightarrow> State \<Rightarrow> (failure + unit) \<times> State" where
  "sendKubeConfigFile w hosts kubeFile s =
     (let absKubeFile = KubernetesConfigDir w @ ''/'' @ kubeFile;
          sealerKubeFile = getBasePath (rt s) @ ''/'' @ kubeFile
      in sendFileToHosts w hosts sealerKubeFile absKubeFile s)"

definition sendNewCertAndKey :: "World \<Rightarrow> IP list \<Rightarrow> State \<Rightarrow> (failure + unit) \<times> State" where
  "sendNewCertAndKey w hosts s = sendFileToHosts w hosts (getPKIPath (rt s)) (KubeDefaultCertPath w) s"

definition sendRegistryCert :: "World \<Rightarrow> IP list \<Rightarrow> State \<Rightarrow> (failure + unit) \<times> State" where
  "sendRegistryCert w host s =
     (let cf = RegConfig (rt s)
      in case sendFileToHosts w host (getCertsDir (rt s) @ ''/'' @ Domain cf @ ''.crt'')
                (DockerCertDir w @ ''/'' @ Domain cf @ '':'' @ Port cf @ ''/'' @ Domain cf @ ''.crt'') s of
           (Inl err, s1) \<Rightarrow> (Inl err, s1)
         | (Inr _, s1) \<Rightarrow>
             sendFileToHosts w host (getCertsDir (rt s1) @ ''/'' @ Domain cf @ ''.crt'')
               (DockerCertDir w @ ''/'' @ SeaHub w @ '':'' @ Port cf @ ''/'' @ Domain cf @ ''.crt'') s1)"

text \<open>
  \<open>ReplaceKubeConfigV1991V1992\<close>: for the two versions, one rewrite command per master,
  in order; the first failure ends the loop with false.
\<close>

fun replaceKubeConfigLoop :: "World \<Rightarrow> IP list \<Rightarrow> State \<Rightarrow> bool \<times> State" where
  "replaceKubeConfigLoop w [] s = (True, s)"
| "replaceKubeConfigLoop w (v # vs) s =
     (let cmd = RemoteReplaceKubeConfig KUBESCHEDULERCONFIGFILE v KUBECONTROLLERCONFIGFILE v
                  KUBESCHEDULERCONFIGFILE
      in case getHostSSHClient w v s of
           (Inl err, s1) \<Rightarrow> (False, s1)
         | (Inr ssh, s1) \<Rightarrow>
             (case CmdAsync w v [cmd] s1 of
                (Inl err, s2) \<Rightarrow> (False, s2)
              | (Inr _, s2) \<Rightarrow> replaceKubeConfigLoop w vs s2))"

definition ReplaceKubeConfigV1991V1992 :: "World \<Rightarrow> IP list \<Rightarrow> State \<Rightarrow> bool \<times> State" where
  "ReplaceKubeConfigV1991V1992 w masters s =
     (if getKubeVersion (rt s) = V1991 \<or> getKubeVersion (rt s) = V1992
      then replaceKubeConfigLoop w masters s
      else (False, s))"

fun sendKubeConfigFiles :: "World \<Rightarrow> IP list \<Rightarrow> string list \<Rightarrow> State \<Rightarrow> (failure + unit) \<times> State" where
  "sendKubeConfigFiles w masters [] s = (Inr (), s)"
| "sendKubeConfigFiles w masters (f # fs) s =
     (case sendKubeConfigFile w masters f s of
        (Inl err, s1) \<Rightarrow> (Inl err, s1)
      | (Inr _, s1) \<Rightarrow> sendKubeConfigFiles w masters fs s1)"

definition SendJoinMasterKubeConfigs :: "World \<Rightarrow> IP list \<Rightarrow> string list \<Rightarrow> State
    \<Rightarrow> (failure + unit) \<times> State" where
  "SendJoinMasterKubeConfigs w masters files s =
     (case sendKubeConfigFiles w masters files s of
        (Inl err, s1) \<Rightarrow> (Inl err, s1)
      | (Inr _, s1) \<Rightarrow> (Inr (), snd (ReplaceKubeConfigV1991V1992 w masters s1)))"

text \<open>
  The setters of the shared join configuration, whose bodies are not among the sources:
  each stores its argument in the document and is recorded as an access to it.
\<close>

definition setAPIServerEndpoint :: "string \<Rightarrow> State \<Rightarrow> State" where
  "setAPIServerEndpoint endpoint s =
     emit (EvSetAPIServerEndpoint endpoint)
       (s\<lparr>rt := (rt s)\<lparr>JoinConfiguration := (JoinConfiguration (rt s))\<lparr>APIServerEndpoint := endpoint\<rparr>\<rparr>\<rparr>)"

definition setJoinAdvertiseAddress :: "IP \<Rightarrow> State \<Rightarrow> State" where
  "setJoinAdvertiseAddress advertiseAddress s =
     emit (EvSetJoinAdvertiseAddress advertiseAddress)
       (s\<lparr>rt := (rt s)\<lparr>JoinConfiguration :=
                          (JoinConfiguration (rt s))\<lparr>JoinAdvertiseAddress := advertiseAddress\<rparr>\<rparr>\<rparr>)"

definition setCgroupDriver :: "string \<Rightarrow> State \<Rightarrow> State" where
  "setCgroupDriver cGroupDriver s =
     emit (EvSetCgroupDriver cGroupDriver)
       (s\<lparr>rt := (rt s)\<lparr>KubeletConfiguration :=
                          (KubeletConfiguration (rt s))\<lparr>CgroupDriver := cGroupDriver\<rparr>\<rparr>\<rparr>)"

text \<open>
  \<open>joinMasterConfig\<close>: \<open>k.Lock()\<close> first, and the deferred \<open>k.Unlock()\<close> last on both
  ways out, after the result has been computed.
\<close>

definition joinMasterConfig :: "World \<Rightarrow> IP \<Rightarrow> State \<Rightarrow> (failure + string) \<times> State" where
  "joinMasterConfig w masterIP s =
     (let s1 = emit EvLock s;
          s2 = setAPIServerEndpoint (GetMaster0IP (cluster (rt s1)) @ '':6443'') s1;
          s3 = setJoinAdvertiseAddress masterIP s2
      in case getCgroupDriverFromShell w masterIP s3 of
           (Inl err, s4) \<Rightarrow> (Inl (Error err), emit EvUnlock s4)
         | (Inr cGroupDriver, s4) \<Rightarrow>
             (let s5 = setCgroupDriver cGroupDriver s4;
                  s6 = emit EvMarshal s5
              in case MarshalWithDelimiter w (JoinConfiguration (rt s6)) (KubeletConfiguration (rt s6)) of
                   Inl err \<Rightarrow> (Inl (Error err), emit EvUnlock s6)
                 | Inr doc \<Rightarrow> (Inr doc, emit EvUnlock s6)))"

text \<open>The task \<open>sendJoinCPConfig\<close> starts for one master, and the fan-out.\<close>

definition sendJoinCPConfigTo :: "World \<Rightarrow> IP \<Rightarrow> State \<Rightarrow> (failure + unit) \<times> State" where
  "sendJoinCPConfigTo w ip s =
     (case joinMasterConfig w ip s of
        (Inl (Panic m), s1) \<Rightarrow> (Inl (Panic m), s1)
      | (Inl (Error err), s1) \<Rightarrow>
          (Inl (Error (''failed to get join '' @ ip @ '' config: '' @ err)), s1)
      | (Inr joinConfig, s1) \<Rightarrow>
          (let cmd = RemoteJoinMasterConfig joinConfig (getRootfs (rt s1))
           in case getHostSSHClient w ip s1 of
                (Inl err, s2) \<Rightarrow>
                  (Inl (Error (''failed to get ssh client of host('' @ ip @ ''): '' @ err)), s2)
              | (Inr ssh, s2) \<Rightarrow>
                  (case CmdAsync w ip [cmd] s2 of
                     (Inl err, s3) \<Rightarrow>
                       (Inl (Error (''failed to set join kubeadm config on host('' @ ip
                                    @ '') with cmd('' @ cmd @ ''): '' @ err)), s3)
                   | (Inr _, s3) \<Rightarrow> (Inr (), s3))))"

text \<open>(\<open>sendJoinCPConfig\<close> first makes the lock anew, \<open>k.Mutex = &sync.Mutex{}\<close>: it starts free.)\<close>

definition sendJoinCPConfig :: "World \<Rightarrow> IP list \<Rightarrow> State \<Rightarrow> (failure + unit) \<times> State" where
  "sendJoinCPConfig w joinMaster s = errgroup (sendJoinCPConfigTo w) joinMaster s"

text \<open>The \<open>%s\<close> verb on a slice of strings: the elements between brackets, a space between them.\<close>

fun joinSpace :: "string list \<Rightarrow> string" where
  "joinSpace [] = []"
| "joinSpace [x] = x"
| "joinSpace (x # y # ys) = x @ '' '' @ joinSpace (y # ys)"

definition fmtStrings :: "string list \<Rightarrow> string" where
  "fmtStrings xs = ''['' @ joinSpace xs @ '']''"

text \<open>
  \<open>GetJoinTokenHashAndKey\<close>: the upload-certs command on master0 through
  \<open>k.CmdToString\<close>, the certificate key cut out of its output and stored, then the
  token-create command on master0 through an SSH client, and its output decoded into
  the runtime by \<open>decodeMaster0Output\<close>.
\<close>

definition GetJoinTokenHashAndKey :: "World \<Rightarrow> State \<Rightarrow> (failure + unit) \<times> State" where
  "GetJoinTokenHashAndKey w s =
     (let cmd = ''kubeadm init phase upload-certs --upload-certs -v '' @ Itoa (Vlog (rt s))
      in case CmdToString w (GetMaster0IP (cluster (rt s))) cmd [CHR 0x0D, CHR 0x0A] s of
           (Inl err, s1) \<Rightarrow> (Inl (Error err), s1)
         | (Inr output, s1) \<Rightarrow>
             (let slice = Split output ''Using certificate key:''
              in if length slice \<noteq> 2
                 then (Inl (Error (''failed to get certifacate key: '' @ fmtStrings slice)), s1)
                 else
                   (let key = ReplaceAll (slice ! 1) [CHR 0x0D, CHR 0x0A] [];
                        s2 = s1\<lparr>rt := (rt s1)\<lparr>CertificateKey := ReplaceAll key [CHR 0x0A] []\<rparr>\<rparr>;
                        cmd = ''kubeadm token create --print-join-command -v '' @ Itoa (Vlog (rt s2))
                    in case getHostSSHClient w (GetMaster0IP (cluster (rt s2))) s2 of
                         (Inl err, s3) \<Rightarrow>
                           (Inl (Error (''failed to get join token hash and key: '' @ err)), s3)
                       | (Inr ssh, s3) \<Rightarrow>
                           (case Cmd w (GetMaster0IP (cluster (rt s3))) cmd s3 of
                              (Inl err, s4) \<Rightarrow>
                                (Inl (Error (''failed to create kubeadm join token: '' @ err)), s4)
                            | (Inr out, s4) \<Rightarrow>
                                (Inr (), s4\<lparr>rt := decodeMaster0Output w out (rt s4)\<rparr>)))))"

text \<open>
  The loop of \<open>joinMasters\<close> over the masters, one at a time; the first failure ends it.
  (The type assertion \<open>client.(*ssh.SSH)\<close> is taken to hold: the client has a \<open>User\<close>.)
\<close>

fun joinMastersLoop :: "World \<Rightarrow> string \<Rightarrow> IP list \<Rightarrow> State \<Rightarrow> (failure + unit) \<times> State" where
  "joinMastersLoop w cmd [] s = (Inr (), s)"
| "joinMastersLoop w cmd (master # masters) s =
     (case getRemoteHostName w master s of
        (Inl err, s1) \<Rightarrow> (Inl (Error err), s1)
      | (Inr hostname, s1) \<Rightarrow>
          (let cmds = JoinMasterCommands w (rt s1) master cmd hostname
           in case getHostSSHClient w master s1 of
                (Inl err, s2) \<Rightarrow> (Inl (Error err), s2)
              | (Inr client, s2) \<Rightarrow>
                  (let cmds = (if User client \<noteq> ROOT w then cmds @ [RemoteNonRootCopyKubeConfig]
                               else cmds)
                   in case CmdAsync w master cmds s2 of
                        (Inl err, s3) \<Rightarrow>
                          (Inl (Error (''failed to exec command('' @ fmtStrings cmds @ '') on master(''
                                       @ master @ ''): '' @ err)), s3)
                      | (Inr _, s3) \<Rightarrow> joinMastersLoop w cmd masters s3)))"

definition joinMasters :: "World \<Rightarrow> IP list \<Rightarrow> State \<Rightarrow> (failure + unit) \<times> State" where
  "joinMasters w masters s =
     (if length masters = 0 then (Inr (), s)
      else case MergeKubeadmConfig w s of
        (Inl err, s1) \<Rightarrow> (Inl (Error err), s1)
      | (Inr _, s1) \<Rightarrow>
      (case WaitSSHReady w 6 masters s1 of
        (Inl err, s2) \<Rightarrow> (Inl (Error (''join masters wait for ssh ready time out: '' @ err)), s2)
      | (Inr _, s2) \<Rightarrow>
      (case GetJoinTokenHashAndKey w s2 of
        (Inl err, s3) \<Rightarrow> (Inl err, s3)
      | (Inr _, s3) \<Rightarrow>
      (case CopyStaticFiles w masters s3 of
        (Inl err, s4) \<Rightarrow> (Inl (Error err), s4)
      | (Inr _, s4) \<Rightarrow>
      (case SendJoinMasterKubeConfigs w masters [AdminConf, ControllerConf, SchedulerConf] s4 of
        (Inl err, s5) \<Rightarrow> (Inl err, s5)
      | (Inr _, s5) \<Rightarrow>
      (case sendRegistryCert w masters s5 of
        (Inl err, s6) \<Rightarrow> (Inl err, s6)
      | (Inr _, s6) \<Rightarrow>
      (case sendNewCertAndKey w masters s6 of
        (Inl err, s7) \<Rightarrow> (Inl err, s7)
      | (Inr _, s7) \<Rightarrow>
      (case sendJoinCPConfig w masters s7 of
        (Inl err, s8) \<Rightarrow> (Inl err, s8)
      | (Inr _, s8) \<Rightarrow>
      (let cmd = Command w (rt s8) (getKubeVersion (rt s8)) JoinMaster
       in if cmd = []
          then (Inl (Error (''failed to get join master command, kubernetes version is ''
                            @ getKubeVersion (rt s8))), s8)
          else joinMastersLoop w cmd masters s8)))))))))"

section \<open>Deleting masters\<close>

text \<open>
  \<open>isHostName\<close>: the node names kubectl lists on \<open>master\<close>, comma-separated, against the
  \<open>hostname\<close> of \<open>host\<close>; the first name that is not blank and equals it without regard
  to case, or the empty string when there is none.
\<close>

fun findHostName :: "World \<Rightarrow> string \<Rightarrow> string list \<Rightarrow> string" where
  "findHostName w hostName [] = []"
| "findHostName w hostName (h # hosts) =
     (if TrimSpace w h = [] then findHostName w hostName hosts
      else if ToLower w h = ToLower w hostName then h
      else findHostName w hostName hosts)"

definition isHostName :: "World \<Rightarrow> IP \<Rightarrow> IP \<Rightarrow> State \<Rightarrow> (failure + string) \<times> State" where
  "isHostName w master host s =
     (case CmdToString w master (''kubectl get nodes | grep -v NAME  | awk '' @ [CHR 0x27]
                                   @ ''{print $1}'' @ [CHR 0x27]) '','' s of
        (Inl err, s1) \<Rightarrow> (Inl (Error err), s1)
      | (Inr hostString, s1) \<Rightarrow>
          (case CmdToString w host ''hostname'' [] s1 of
             (Inl err, s2) \<Rightarrow> (Inl (Error err), s2)
           | (Inr hostName, s2) \<Rightarrow> (Inr (findHostName w hostName (Split hostString '','')), s2)))"

text \<open>
  The commands \<open>deleteMaster\<close> runs on the master it removes: the six clean-up commands,
  then the removal of the kubeconfig when the local addresses cannot be read or the
  master is not among them, and otherwise the API-server entry of \<open>/etc/hosts\<close>.
\<close>

definition remoteCleanCmd :: "World \<Rightarrow> Runtime \<Rightarrow> IP \<Rightarrow> string + string list \<Rightarrow> string list" where
  "remoteCleanCmd w k master address =
     (let cmds = [RemoteCleanMasterOrNode (vlogToStr (Vlog k)),
                  RemoteRemoveAPIServerEtcHost (Domain (RegConfig k)),
                  RemoteRemoveAPIServerEtcHost (SeaHub w),
                  RemoteRemoveRegistryCerts (DockerCertDir w) (Domain (RegConfig k)),
                  RemoteRemoveRegistryCerts (DockerCertDir w) (SeaHub w),
                  RemoteRemoveAPIServerEtcHost (getAPIServerDomain k)]
      in case address of
           Inl err \<Rightarrow> cmds @ [RemoveKubeConfig]
         | Inr addrs \<Rightarrow>
             if \<not> IsLocalIP w master addrs then cmds @ [RemoveKubeConfig]
             else (let apiServerHost = getAPIServerHost (GetMaster0IP (cluster k)) (getAPIServerDomain k)
                   in cmds @ [RemoteAddEtcHosts apiServerHost apiServerHost]))"

text \<open>
  The task \<open>deleteMaster\<close> starts for one worker node. A failed \<open>getHostSSHClient\<close> is
  only logged, and the call of \<open>CmdAsync\<close> on the client it did not return (\<open>nil\<close>, with
  the error) panics. The task's result is the outer \<open>err\<close>, which is \<open>nil\<close> by then, so a
  failed \<open>CmdAsync\<close> is only logged too.
\<close>

definition updateLvscareOn :: "World \<Rightarrow> string \<Rightarrow> IP \<Rightarrow> State \<Rightarrow> (failure + unit) \<times> State" where
  "updateLvscareOn w yaml node s =
     (case getHostSSHClient w node s of
        (Inl err, s1) \<Rightarrow> (Inl (Panic ''invalid memory address or nil pointer dereference''), s1)
      | (Inr ssh, s1) \<Rightarrow>
          (case CmdAsync w node [RemoveLvscareStaticPod, CreateLvscareStaticPod yaml] s1 of
             (_, s2) \<Rightarrow> (Inr (), s2)))"

definition deleteMaster :: "World \<Rightarrow> IP \<Rightarrow> State \<Rightarrow> (failure + unit) \<times> State" where
  "deleteMaster w master s =
     (case getHostSSHClient w master s of
        (Inl err, s1) \<Rightarrow> (Inl (Error (''failed to delete master: '' @ err)), s1)
      | (Inr ssh, s1) \<Rightarrow>
      (case GetLocalHostAddresses w s1 of (address, s2) \<Rightarrow>
      (case CmdAsync w master (remoteCleanCmd w (rt s2) master address) s2 of
        (Inl err, s3) \<Rightarrow> (Inl (Error err), s3)
      | (Inr _, s3) \<Rightarrow>
      (let masterIPs = filter (\<lambda>ip. ip \<noteq> master) (GetMasterIPList (cluster (rt s3)));
           master0 = GetMaster0IP (cluster (rt s3))
       in case (if length masterIPs > 0
                then (case isHostName w master0 master s3 of
                        (Inl err, s4) \<Rightarrow> (Inl err, s4)
                      | (Inr hostname, s4) \<Rightarrow>
                          (case getHostSSHClient w master0 s4 of
                             (Inl err, s5) \<Rightarrow>
                               (Inl (Error (''failed to get master0 ssh client: '' @ err)), s5)
                           | (Inr master0SSH, s5) \<Rightarrow>
                               (case CmdAsync w master0 [KubeDeleteNode (TrimSpace w hostname)] s5 of
                                  (Inl err, s6) \<Rightarrow>
                                    (Inl (Error (''failed to delete node '' @ hostname @ '': '' @ err)), s6)
                                | (Inr _, s6) \<Rightarrow> (Inr (), s6))))
                else (Inr (), s3)) of
            (Inl err, s7) \<Rightarrow> (Inl err, s7)
          | (Inr _, s7) \<Rightarrow>
              (let lvsImage = Repo w (RegConfig (rt s7)) @ ''/fanux/lvscare:latest'';
                   yaml = LvsStaticPodYaml w (getVIP (rt s7)) masterIPs lvsImage
               in errgroup (updateLvscareOn w yaml) (GetNodeIPList (cluster (rt s7))) s7)))))"

text \<open>
  \<open>deleteMasters\<close>: one task per master; the error of \<open>deleteMaster\<close> is logged and the
  task returns \<open>nil\<close>.
\<close>

definition deleteMasterTask :: "World \<Rightarrow> IP \<Rightarrow> State \<Rightarrow> (failure + unit) \<times> State" where
  "deleteMasterTask w master s =
     (case deleteMaster w master s of
        (Inl (Panic m), s1) \<Rightarrow> (Inl (Panic m), s1)
      | (_, s1) \<Rightarrow> (Inr (), s1))"

definition deleteMasters :: "World \<Rightarrow> IP list \<Rightarrow> State \<Rightarrow> (failure + unit) \<times> State" where
  "deleteMasters w masters s =
     (if length masters = 0 then (Inr (), s)
      else errgroup (deleteMasterTask w) masters s)"

section \<open>Observing the calls\<close>

text \<open>
  The credential fetch in a trace. A command is an upload-certs command or a
  token-create command by the text it starts with, and an event is one of the fetch
  when a command it sends to a host is, whichever call sends it.
\<close>

definition isUploadCertsCmd :: "string \<Rightarrow> bool" where
  "isUploadCertsCmd c = HasPrefix c ''kubeadm init phase upload-certs''"

definition isTokenCreateCmd :: "string \<Rightarrow> bool" where
  "isTokenCreateCmd c = HasPrefix c ''kubeadm token create''"

definition isFetchCmd :: "string \<Rightarrow> bool" where
  "isFetchCmd c = (isUploadCertsCmd c \<or> isTokenCreateCmd c)"

fun commandsOf :: "event \<Rightarrow> string list" where
  "commandsOf (EvCmd h c) = [c]"
| "commandsOf (EvCmdAsync h cs) = cs"
| "commandsOf (EvCmdToString h c sp) = [c]"
| "commandsOf e = []"

definition isUploadCerts :: "event \<Rightarrow> bool" where
  "isUploadCerts e = list_ex isUploadCertsCmd (commandsOf e)"

definition isTokenCreate :: "event \<Rightarrow> bool" where
  "isTokenCreate e = list_ex isTokenCreateCmd (commandsOf e)"

definition isFetch :: "event \<Rightarrow> bool" where
  "isFetch e = (isUploadCerts e \<or> isTokenCreate e)"

text \<open>A command is a \<open>kubectl delete node\<close> when it is an instance of \<open>KubeDeleteNode\<close>.\<close>

definition isKubeDeleteNode :: "string \<Rightarrow> bool" where
  "isKubeDeleteNode c = HasPrefix c (KubeDeleteNode [])"

definition issuesKubeDeleteNode :: "event \<Rightarrow> bool" where
  "issuesKubeDeleteNode e =
     (case e of
        EvCmd h c \<Rightarrow> isKubeDeleteNode c
      | EvCmdAsync h cs \<Rightarrow> list_ex isKubeDeleteNode cs
      | EvCmdToString h c sp \<Rightarrow> isKubeDeleteNode c
      | _ \<Rightarrow> False)"

text \<open>A command re-adds an entry of \<open>/etc/hosts\<close> when it is an instance of \<open>RemoteAddEtcHosts\<close>.\<close>

definition isAddEtcHosts :: "string \<Rightarrow> bool" where
  "isAddEtcHosts c = HasPrefix c (''cat /etc/hosts |grep '' @ [CHR 0x27])"

text \<open>
  The state lock along a trace, starting free or held: the events that happen while it
  is held, those that happen while it is free, and whether it is held at the end.
\<close>

fun underLock :: "bool \<Rightarrow> event list \<Rightarrow> event list" where
  "underLock held [] = []"
| "underLock held (EvLock # es) = underLock True es"
| "underLock held (EvUnlock # es) = underLock False es"
| "underLock held (e # es) = (if held then e # underLock held es else underLock held es)"

fun outsideLock :: "bool \<Rightarrow> event list \<Rightarrow> event list" where
  "outsideLock held [] = []"
| "outsideLock held (EvLock # es) = outsideLock True es"
| "outsideLock held (EvUnlock # es) = outsideLock False es"
| "outsideLock held (e # es) = (if held then outsideLock held es else e # outsideLock held es)"

fun lockAfter :: "bool \<Rightarrow> event list \<Rightarrow> bool" where
  "lockAfter held [] = held"
| "lockAfter held (EvLock # es) = lockAfter True es"
| "lockAfter held (EvUnlock # es) = lockAfter False es"
| "lockAfter held (e # es) = lockAfter held es"

text \<open>The accesses to the shared join configuration: the three setters and the marshalling.\<close>

fun isConfigAccess :: "event \<Rightarrow> bool" where
  "isConfigAccess (EvSetAPIServerEndpoint a) = True"
| "isConfigAccess (EvSetJoinAdvertiseAddress a) = True"
| "isConfigAccess (EvSetCgroupDriver a) = True"
| "isConfigAccess EvMarshal = True"
| "isConfigAccess e = False"

text \<open>
  Modelled from the spec: which calls are network I/O. The calls on the remote executor
  are (\<open>Connect\<close>, \<open>Cmd\<close>, \<open>CmdAsync\<close>, \<open>Copy\<close>), and so are the methods built on it whose
  bodies are not among the sources: \<open>CmdToString\<close>, \<open>WaitSSHReady\<close> (the reachability
  poll), \<open>CopyStaticFiles\<close>, \<open>getRemoteHostName\<close> and \<open>getCgroupDriverFromShell\<close>, which
  the spec describes as detecting the host's cgroup driver by remote probe.
\<close>

fun isNetworkIO :: "event \<Rightarrow> bool" where
  "isNetworkIO (EvGetHostSSHClient h) = True"
| "isNetworkIO (EvCmd h c) = True"
| "isNetworkIO (EvCmdAsync h cs) = True"
| "isNetworkIO (EvCopy h src dst) = True"
| "isNetworkIO (EvCmdToString h c sp) = True"
| "isNetworkIO (EvWaitSSHReady n hs) = True"
| "isNetworkIO (EvCopyStaticFiles hs) = True"
| "isNetworkIO (EvGetRemoteHostName h) = True"
| "isNetworkIO (EvGetCgroupDriverFromShell h) = True"
| "isNetworkIO e = False"

text \<open>
  A run from \<open>s\<close> to \<open>s'\<close> emits only events of a kind \<open>Q\<close> when the trace of \<open>s'\<close> is the
  trace of \<open>s\<close> followed by events that all satisfy \<open>Q\<close>.
\<close>

definition emits :: "(event \<Rightarrow> bool) \<Rightarrow> State \<Rightarrow> State \<Rightarrow> bool" where
  "emits Q s s' = (\<exists>es. trace s' = trace s @ es \<and> list_all Q es)"

section \<open>A concrete cluster and a concrete outside world\<close>

text \<open>
  A two-master, one-worker cluster and a world in which every remote call succeeds,
  used to evaluate the methods on concrete inputs.
\<close>

definition runtime0 :: Runtime where
  "runtime0 =
     \<lparr>Vlog = 5,
      RegConfig = \<lparr>Domain = ''sea.hub'', IP = ''10.0.0.2'', Port = ''5000'',
                   Username = [], Password = []\<rparr>,
      cluster = \<lparr>GetMaster0IP = ''10.0.0.2'',
                 GetMasterIPList = [''10.0.0.2'', ''10.0.0.3''],
                 GetNodeIPList = [''10.0.0.9'']\<rparr>,
      getRootfs = ''/var/lib/sealer/data/my-cluster/rootfs'',
      getBasePath = ''/var/lib/sealer/data/my-cluster'',
      getPKIPath = ''/var/lib/sealer/data/my-cluster/pki'',
      getCertsDir = ''/var/lib/sealer/data/my-cluster/certs'',
      getKubeVersion = ''v1.19.8'',
      getAPIServerDomain = ''apiserver.cluster.local'',
      getVIP = ''10.103.97.2'',
      getCertSANS = [],
      getSvcCIDR = ''10.96.0.0/22'',
      JoinToken = ''abcdef.0123456789abcdef'',
      TokenCaCertHash = ''sha256:00ff'',
      CertificateKey = ''8376c70a'',
      JoinConfiguration = \<lparr>APIServerEndpoint = [], JoinAdvertiseAddress = []\<rparr>,
      KubeletConfiguration = \<lparr>CgroupDriver = []\<rparr>\<rparr>"

definition uploadCertsOutput :: string where
  "uploadCertsOutput =
     ''[upload-certs] Storing the certificates in Secret'' @ [CHR 0x0D, CHR 0x0A]
     @ ''[upload-certs] Using certificate key:'' @ [CHR 0x0D, CHR 0x0A]
     @ ''8376c70aaaf285b7'' @ [CHR 0x0A]"

text \<open>
  What \<open>strings.TrimSpace\<close> and \<open>strings.ToLower\<close> compute on ASCII text, which is all
  the text of the concrete worlds: the white space there is tab, line feed, vertical tab,
  form feed, carriage return and space, and the letters \<open>A\<close> to \<open>Z\<close> are lowered.
\<close>

definition asciiSpace :: "char \<Rightarrow> bool" where
  "asciiSpace c = (c \<in> set [CHR 0x09, CHR 0x0A, CHR 0x0B, CHR 0x0C, CHR 0x0D, CHR '' ''])"

definition asciiTrimSpace :: "string \<Rightarrow> string" where
  "asciiTrimSpace s = rev (dropWhile asciiSpace (rev (dropWhile asciiSpace s)))"

definition asciiLowerChar :: "char \<Rightarrow> char" where
  "asciiLowerChar c =
     (let n = (of_char c :: nat) in if 65 \<le> n \<and> n \<le> 90 then char_of (n + 32) else c)"

definition asciiToLower :: "string \<Rightarrow> string" where
  "asciiToLower s = map asciiLowerChar s"

definition world0 :: World where
  "world0 =
     \<lparr>IsInContainer = False,
      SeaHub = ''sea.hub'',
      DockerCertDir = ''/etc/docker/certs.d'',
      KubernetesConfigDir = ''/etc/kubernetes'',
      KubeDefaultCertPath = ''/etc/kubernetes/pki'',
      ROOT = ''root'',
      addRegistryDomainToHosts = (\<lambda>k. RemoteAddEtcHosts (IP (RegConfig k) @ '' '' @ Domain (RegConfig k))
                                       (IP (RegConfig k) @ '' '' @ Domain (RegConfig k))),
      RemoteCerts = (\<lambda>sans ip hostname cidr dns. ''seautil certs --node-ip '' @ ip @ '' --node-name '' @ hostname),
      GenLoginCommand = (\<lambda>k. ''docker login '' @ Domain (RegConfig k)),
      Repo = (\<lambda>r. Domain r @ '':'' @ Port r),
      LvsStaticPodYaml = (\<lambda>vip masters image. concat (map (\<lambda>m. ''--rs '' @ m @ '':6443 '') masters)),
      MarshalWithDelimiter = (\<lambda>j c. Inr (JoinAdvertiseAddress j @ '' '' @ CgroupDriver c)),
      IsLocalIP = (\<lambda>ip addrs. ip \<in> set addrs),
      decodeMaster0Output = (\<lambda>out k. k\<lparr>JoinToken := ''abcdef.0123456789abcdef'',
                                          TokenCaCertHash := ''sha256:00ff''\<rparr>),
      TrimSpace = asciiTrimSpace,
      ToLower = asciiToLower,
      reply_getHostSSHClient = (\<lambda>t ip. Inr \<lparr>User = ''root''\<rparr>),
      reply_Cmd = (\<lambda>t ip c. Inr ''kubeadm join 10.0.0.2:6443 --token abcdef.0123456789abcdef''),
      reply_CmdAsync = (\<lambda>t ip cs. Inr ()),
      reply_Copy = (\<lambda>t ip src dst. Inr ()),
      reply_CmdToString = (\<lambda>t ip c split.
         Inr (if c = ''hostname'' then ''Master-02''
              else if HasPrefix c ''kubectl get nodes'' then ''master-01,master-02,''
              else uploadCertsOutput)),
      reply_MergeKubeadmConfig = (\<lambda>t k. Inr k),
      reply_WaitSSHReady = (\<lambda>t n hosts. Inr ()),
      reply_CopyStaticFiles = (\<lambda>t hosts. Inr ()),
      reply_getRemoteHostName = (\<lambda>t ip. Inr ''master-02''),
      reply_getCgroupDriverFromShell = (\<lambda>t ip. Inr ''systemd''),
      reply_GetLocalHostAddresses = (\<lambda>t. Inr [''10.0.0.2''])\<rparr>"


definition state0 :: State where
  "state0 = \<lparr>rt = runtime0, trace = []\<rparr>"

text \<open>Worlds in which one kind of call fails, or answers otherwise.\<close>

definition worldNoMarker :: World where
  "worldNoMarker = world0\<lparr>reply_CmdToString := (\<lambda>t ip c split. Inr ''error execution phase upload-certs'')\<rparr>"

definition worldLoneCR :: World where
  "worldLoneCR = world0\<lparr>reply_CmdToString := (\<lambda>t ip c split.
      Inr (''Using certificate key:'' @ [CHR 0x0D] @ ''ab'' @ [CHR 0x0D] @ ''cd''))\<rparr>"

definition worldNoSSH :: World where
  "worldNoSSH = world0\<lparr>reply_getHostSSHClient := (\<lambda>t ip. Inl ''dial tcp: i/o timeout'')\<rparr>"

definition worldCmdFails :: World where
  "worldCmdFails = world0\<lparr>reply_CmdAsync := (\<lambda>t ip cs. Inl ''Process exited with status 1'')\<rparr>"

definition worldOtherName :: World where
  "worldOtherName = world0\<lparr>reply_CmdToString := (\<lambda>t ip c split.
      Inr (if c = ''hostname'' then ''izbp1-host'' else ''master-01,master-02,''))\<rparr>"

definition stateLast :: State where
  "stateLast = state0\<lparr>rt := runtime0\<lparr>cluster := (cluster runtime0)\<lparr>GetMasterIPList := [''10.0.0.2'']\<rparr>\<rparr>\<rparr>"

section \<open>Facts about the version comparison and the roles\<close>

lemma roles_distinct:
  "InitMaster \<noteq> JoinMaster" "InitMaster \<noteq> JoinNode" "JoinMaster \<noteq> JoinNode"
  "JoinMaster \<noteq> InitMaster" "JoinNode \<noteq> InitMaster" "JoinNode \<noteq> JoinMaster"
  by (simp_all add: InitMaster_def JoinMaster_def JoinNode_def)

lemma parseVersion_V1150: "parseVersion V1150 = Some (1, 15, 0)"
  by (simp add: parseVersion_def V1150_def Split_def HasPrefix_def parseNat_def isDigit_def)

lemma Compare_parsed:
  "parseVersion version = Some v \<Longrightarrow> Compare version V1150 = (versionGE v (1, 15, 0), None)"
  by (simp add: Compare_def parseVersion_V1150)

lemma Compare_unparsed:
  "parseVersion version = None \<Longrightarrow> fst (Compare version V1150) = False"
  by (simp add: Compare_def)

lemma Command_upper:
  assumes "fst (Compare version V1150)"
  shows "Command w k version InitMaster = InitMaser115Upper (getRootfs k) @ vlogToStr (Vlog k)
           @ (if IsInContainer w then '' --ignore-preflight-errors=all''
              else '' --ignore-preflight-errors=SystemVerification'')"
    and "Command w k version JoinMaster = JoinMaster115Upper (getRootfs k) @ vlogToStr (Vlog k)
           @ (if IsInContainer w then '' --ignore-preflight-errors=all''
              else '' --ignore-preflight-errors=SystemVerification'')"
    and "Command w k version JoinNode = JoinNode115Upper (getRootfs k) @ vlogToStr (Vlog k)
           @ (if IsInContainer w then '' --ignore-preflight-errors=all'' else [])"
  using assms by (cases "Compare version V1150"; simp add: Command_def Let_def roles_distinct)+

lemma Command_lower:
  assumes "\<not> fst (Compare version V1150)"
  shows "Command w k version InitMaster = InitMaster115Lower (getRootfs k) @ vlogToStr (Vlog k)
           @ (if IsInContainer w then '' --ignore-preflight-errors=all''
              else '' --ignore-preflight-errors=SystemVerification'')"
    and "Command w k version JoinMaster =
           JoinMaster115Lower (GetMaster0IP (cluster k)) (JoinToken k) (TokenCaCertHash k) (CertificateKey k)
           @ vlogToStr (Vlog k)
           @ (if IsInContainer w then '' --ignore-preflight-errors=all''
              else '' --ignore-preflight-errors=SystemVerification'')"
    and "Command w k version JoinNode =
           JoinNode115Lower (getVIP k) (JoinToken k) (TokenCaCertHash k) @ vlogToStr (Vlog k)
           @ (if IsInContainer w then '' --ignore-preflight-errors=all'' else [])"
  using assms by (cases "Compare version V1150"; simp add: Command_def Let_def roles_distinct)+

lemma Command_unsupported:
  assumes "name \<noteq> InitMaster" "name \<noteq> JoinMaster" "name \<noteq> JoinNode"
  shows "Command w k version name = []"
  using assms by (simp add: Command_def Let_def split: prod.splits)

lemma parseVersion_examples:
  "parseVersion ''1.15.0'' = Some (1, 15, 0)"
  "parseVersion ''v1.15.0'' = Some (1, 15, 0)"
  "parseVersion ''1.14.9'' = Some (1, 14, 9)"
  "parseVersion ''1.23.0'' = Some (1, 23, 0)"
  "parseVersion ''latest'' = None"
  by (simp_all add: parseVersion_def Split_def HasPrefix_def parseNat_def isDigit_def)

section \<open>Properties of the command builder\<close>









section \<open>Facts about traces\<close>

lemma trace_emit [simp]: "trace (emit e s) = trace s @ [e]"
  by (simp add: emit_def)

lemma rt_emit [simp]: "rt (emit e s) = rt s"
  by (simp add: emit_def)

lemmas call_defs = getHostSSHClient_def Cmd_def CmdAsync_def Copy_def CmdToString_def
  MergeKubeadmConfig_def WaitSSHReady_def CopyStaticFiles_def getRemoteHostName_def
  getCgroupDriverFromShell_def GetLocalHostAddresses_def

lemma emits_refl [simp]: "emits Q s s"
  by (simp add: emits_def)

lemma emits_emit: "Q e \<Longrightarrow> emits Q s s' \<Longrightarrow> emits Q s (emit e s')"
  by (auto simp: emits_def)

lemma emits_trans: "emits Q s s1 \<Longrightarrow> emits Q s1 s2 \<Longrightarrow> emits Q s s2"
  by (auto simp: emits_def)

lemma emits_rt [simp]: "emits Q s (s'\<lparr>rt := k\<rparr>) = emits Q s s'"
  by (simp add: emits_def)

lemma emits_True: "emits (\<lambda>e. True) s s' = prefix (trace s) (trace s')"
  by (simp add: emits_def list_all_iff prefix_def)

text \<open>What every task of a fan-out emits, the fan-out emits.\<close>

lemma errgroup_emits:
  assumes "\<And>h s. emits Q s (snd (f h s))"
  shows "emits Q s (snd (errgroup f hs s))"
proof (induction hs arbitrary: s)
  case Nil
  then show ?case by simp
next
  case (Cons h hs)
  obtain r s1 where f: "f h s = (r, s1)" by (cases "f h s")
  have s1: "emits Q s s1"
    using assms [of s h] f by simp
  obtain r2 s2 where e: "errgroup f hs s1 = (r2, s2)" by (cases "errgroup f hs s1")
  have s2: "emits Q s1 s2"
    using Cons.IH [of s1] e by simp
  have "emits Q s s2"
    using s1 s2 by (rule emits_trans)
  then show ?case
    using f e s1 by (auto split: sum.splits failure.splits)
qed

lemma errgroup_prefix:
  assumes "\<And>h s. prefix (trace s) (trace (snd (f h s)))"
  shows "prefix (trace s) (trace (snd (errgroup f hs s)))"
  using errgroup_emits [of "\<lambda>e. True" f s hs] assms by (simp add: emits_True)

section \<open>Facts about deleting a master\<close>

lemma updateLvscareOn_prefix: "prefix (trace s) (trace (snd (updateLvscareOn w yaml node s)))"
  by (simp add: updateLvscareOn_def call_defs split: sum.splits prod.splits)

lemma lvscare_prefix:
  "prefix (trace s) (trace (snd (errgroup (updateLvscareOn w yaml) hs s)))"
  by (rule errgroup_prefix) (rule updateLvscareOn_prefix)

lemma updateLvscareOn_emits:
  "emits (\<lambda>e. \<not> issuesKubeDeleteNode e) s (snd (updateLvscareOn w yaml node s))"
  by (simp add: updateLvscareOn_def call_defs issuesKubeDeleteNode_def isKubeDeleteNode_def
      KubeDeleteNode_def HasPrefix_def RemoveLvscareStaticPod_def CreateLvscareStaticPod_def
      emits_emit split: sum.splits prod.splits)

lemma not_isKubeDeleteNode_clean:
  "\<not> list_ex isKubeDeleteNode (remoteCleanCmd w k master address)"
  by (simp add: remoteCleanCmd_def isKubeDeleteNode_def KubeDeleteNode_def HasPrefix_def Let_def
      RemoteCleanMasterOrNode_def RemoteRemoveAPIServerEtcHost_def RemoteRemoveRegistryCerts_def
      RemoveKubeConfig_def RemoteAddEtcHosts_def split: sum.splits)

lemma RemoveKubeConfig_neq:
  "RemoveKubeConfig \<noteq> RemoteCleanMasterOrNode a"
  "RemoveKubeConfig \<noteq> RemoteRemoveAPIServerEtcHost a"
  "RemoveKubeConfig \<noteq> RemoteRemoveRegistryCerts d a"
  "RemoveKubeConfig \<noteq> RemoteAddEtcHosts a b"
proof -
  show "RemoveKubeConfig \<noteq> RemoteCleanMasterOrNode a"
    by (simp add: RemoveKubeConfig_def RemoteCleanMasterOrNode_def)
  show "RemoveKubeConfig \<noteq> RemoteRemoveAPIServerEtcHost a"
    by (simp add: RemoveKubeConfig_def RemoteRemoveAPIServerEtcHost_def)
  show "RemoveKubeConfig \<noteq> RemoteAddEtcHosts a b"
    by (simp add: RemoveKubeConfig_def RemoteAddEtcHosts_def)
  have "last RemoveKubeConfig \<noteq> last (RemoteRemoveRegistryCerts d a)"
    by (simp add: RemoteRemoveRegistryCerts_def RemoveKubeConfig_def)
  then show "RemoveKubeConfig \<noteq> RemoteRemoveRegistryCerts d a"
    by auto
qed

lemma remoteCleanCmd_local:
  assumes "address = Inr addrs" "IsLocalIP w master addrs"
  shows "RemoteAddEtcHosts (getAPIServerHost (GetMaster0IP (cluster k)) (getAPIServerDomain k))
           (getAPIServerHost (GetMaster0IP (cluster k)) (getAPIServerDomain k))
         \<in> set (remoteCleanCmd w k master address)"
    and "RemoveKubeConfig \<notin> set (remoteCleanCmd w k master address)"
  using assms by (simp_all add: remoteCleanCmd_def Let_def RemoveKubeConfig_neq)

lemma remoteCleanCmd_not_local:
  assumes "address = Inl e \<or> (address = Inr addrs \<and> \<not> IsLocalIP w master addrs)"
  shows "RemoveKubeConfig \<in> set (remoteCleanCmd w k master address)"
    and "\<not> list_ex isAddEtcHosts (remoteCleanCmd w k master address)"
  using assms
  by (auto simp: remoteCleanCmd_def Let_def RemoteCleanMasterOrNode_def RemoveKubeConfig_def
      RemoteRemoveAPIServerEtcHost_def RemoteRemoveRegistryCerts_def isAddEtcHosts_def HasPrefix_def)

lemma deleteMaster_no_client:
  assumes "reply_getHostSSHClient w (trace s) master = Inl e"
  shows "deleteMaster w master s
         = (Inl (Error (''failed to delete master: '' @ e)), emit (EvGetHostSSHClient master) s)"
  using assms by (simp add: deleteMaster_def getHostSSHClient_def)

lemma deleteMaster_clean_fails:
  assumes "reply_getHostSSHClient w (trace s) master = Inr ssh"
    and "reply_CmdAsync w (trace s @ [EvGetHostSSHClient master, EvGetLocalHostAddresses]) master
           (remoteCleanCmd w (rt s) master
              (reply_GetLocalHostAddresses w (trace s @ [EvGetHostSSHClient master]))) = Inl e"
  shows "deleteMaster w master s
         = (Inl (Error e),
            emit (EvCmdAsync master (remoteCleanCmd w (rt s) master
                    (reply_GetLocalHostAddresses w (trace s @ [EvGetHostSSHClient master]))))
              (emit EvGetLocalHostAddresses (emit (EvGetHostSSHClient master) s)))"
  using assms by (simp add: deleteMaster_def call_defs)

lemma deleteMaster_sends_clean:
  assumes "reply_getHostSSHClient w (trace s) master = Inr ssh"
  shows "prefix (trace s @ [EvGetHostSSHClient master, EvGetLocalHostAddresses,
                       EvCmdAsync master (remoteCleanCmd w (rt s) master
                         (reply_GetLocalHostAddresses w (trace s @ [EvGetHostSSHClient master])))])
          (trace (snd (deleteMaster w master s)))"
  using assms
  by (auto simp: deleteMaster_def isHostName_def call_defs Let_def split: sum.splits
      intro!: prefix_order.trans [OF _ lvscare_prefix])

lemma findHostName_no_match:
  "\<not> list_ex (\<lambda>h. TrimSpace w h \<noteq> [] \<and> ToLower w h = ToLower w hostName) hosts
   \<Longrightarrow> findHostName w hostName hosts = []"
  by (induction hosts) auto

lemma world0_join_replies:
  "reply_Copy world0 t ip src dst = Inr ()"
  "reply_getCgroupDriverFromShell world0 t ip = Inr ''systemd''"
  "reply_getRemoteHostName world0 t ip = Inr ''master-02''"
  "reply_CopyStaticFiles world0 t hosts = Inr ()"
  "reply_WaitSSHReady world0 t n hosts = Inr ()"
  "reply_MergeKubeadmConfig world0 t k = Inr k"
  "reply_Cmd world0 t ip c = Inr ''kubeadm join 10.0.0.2:6443 --token abcdef.0123456789abcdef''"
  "reply_CmdToString world0 t ip (CHR ''k'' # CHR ''u'' # CHR ''b'' # CHR ''e'' # CHR ''a'' # v) sp
     = Inr uploadCertsOutput"
  "MarshalWithDelimiter world0 jc kc = Inr (JoinAdvertiseAddress jc @ '' '' @ CgroupDriver kc)"
  by (simp_all add: world0_def HasPrefix_def)

lemma world0_replies:
  "reply_getHostSSHClient world0 t ip = Inr \<lparr>User = ''root''\<rparr>"
  "reply_CmdAsync world0 t ip cs = Inr ()"
  "reply_GetLocalHostAddresses world0 t = Inr [''10.0.0.2'']"
  "IsLocalIP world0 ip addrs = (ip \<in> set addrs)"
  by (simp_all add: world0_def)


section \<open>Properties of deleting a master\<close>

text \<open>
  C4, as the code has it. When the master to delete cannot be reached for the clean-up
  (no SSH client for it, or the clean-up commands fail on it), \<open>deleteMaster\<close> returns
  that failure at once: after the failed call nothing more happens, so no node is
  deleted and no worker gets a new load-balancer manifest. The failure is not fatal to
  the batch: the task \<open>deleteMasters\<close> runs for this master only logs it and ends
  without error, so the other masters are still processed.
\<close>

theorem deleteMaster_unreachable_returns_failure:
  "(reply_getHostSSHClient w (trace s) master = Inl e \<longrightarrow>
      fst (deleteMaster w master s) = Inl (Error (''failed to delete master: '' @ e))
      \<and> trace (snd (deleteMaster w master s)) = trace s @ [EvGetHostSSHClient master]
      \<and> fst (deleteMasterTask w master s) = Inr ())
   \<and> (let t1 = trace s @ [EvGetHostSSHClient master];
           clean = remoteCleanCmd w (rt s) master (reply_GetLocalHostAddresses w t1);
           t2 = t1 @ [EvGetLocalHostAddresses]
       in reply_getHostSSHClient w (trace s) master = Inr ssh \<longrightarrow>
          reply_CmdAsync w t2 master clean = Inl e \<longrightarrow>
          fst (deleteMaster w master s) = Inl (Error e)
          \<and> trace (snd (deleteMaster w master s)) = t2 @ [EvCmdAsync master clean]
          \<and> fst (deleteMasterTask w master s) = Inr ())"
  using deleteMaster_no_client [of w s master e] deleteMaster_clean_fails [of w s master ssh e]
  by (simp add: Let_def deleteMasterTask_def)

theorem deleteMaster_unreachable_returns_failure_witness:
  "reply_getHostSSHClient worldNoSSH (trace state0) ''10.0.0.3'' = Inl ''dial tcp: i/o timeout''
   \<and> fst (deleteMaster worldNoSSH ''10.0.0.3'' state0)
       = Inl (Error ''failed to delete master: dial tcp: i/o timeout'')
   \<and> trace (snd (deleteMaster worldNoSSH ''10.0.0.3'' state0)) = [EvGetHostSSHClient ''10.0.0.3'']
   \<and> fst (deleteMasterTask worldNoSSH ''10.0.0.3'' state0) = Inr ()
   \<and> reply_getHostSSHClient worldCmdFails (trace state0) ''10.0.0.3'' = Inr \<lparr>User = ''root''\<rparr>
   \<and> fst (deleteMaster worldCmdFails ''10.0.0.3'' state0) = Inl (Error ''Process exited with status 1'')
   \<and> length (trace (snd (deleteMaster worldCmdFails ''10.0.0.3'' state0))) = 3
   \<and> fst (deleteMasterTask worldCmdFails ''10.0.0.3'' state0) = Inr ()"
proof -
  have a: "\<And>t. reply_getHostSSHClient worldNoSSH t ''10.0.0.3'' = Inl ''dial tcp: i/o timeout''"
    by (simp add: worldNoSSH_def)
  have b: "\<And>t. reply_getHostSSHClient worldCmdFails t ''10.0.0.3'' = Inr \<lparr>User = ''root''\<rparr>"
    "\<And>t cs. reply_CmdAsync worldCmdFails t ''10.0.0.3'' cs = Inl ''Process exited with status 1''"
    by (simp_all add: worldCmdFails_def world0_def)
  have t: "trace state0 = []"
    by (simp add: state0_def)
  show ?thesis
    using deleteMaster_unreachable_returns_failure
            [of worldNoSSH state0 "''10.0.0.3''" "''dial tcp: i/o timeout''" "\<lparr>User = ''root''\<rparr>"]
          deleteMaster_unreachable_returns_failure
            [of worldCmdFails state0 "''10.0.0.3''" "''Process exited with status 1''" "\<lparr>User = ''root''\<rparr>"]
    by (simp add: a b t Let_def)
qed

text \<open>
  C4 as the spec words it fails: with other masters remaining and a worker in the
  cluster, a master that gives no SSH client, or on which the clean-up fails, ends
  \<open>deleteMaster\<close> with the error; neither \<open>kubectl delete node\<close> nor any call on the
  worker follows.
\<close>

theorem deleteMaster_unreachable_counterexample:
  "GetMasterIPList (cluster (rt state0)) = [''10.0.0.2'', ''10.0.0.3'']
   \<and> GetNodeIPList (cluster (rt state0)) = [''10.0.0.9'']
   \<and> deleteMaster worldNoSSH ''10.0.0.3'' state0
       = (Inl (Error ''failed to delete master: dial tcp: i/o timeout''),
          state0\<lparr>trace := [EvGetHostSSHClient ''10.0.0.3'']\<rparr>)
   \<and> fst (deleteMaster worldCmdFails ''10.0.0.3'' state0) = Inl (Error ''Process exited with status 1'')
   \<and> \<not> list_ex issuesKubeDeleteNode (trace (snd (deleteMaster worldCmdFails ''10.0.0.3'' state0)))
   \<and> EvGetHostSSHClient ''10.0.0.9'' \<notin> set (trace (snd (deleteMaster worldCmdFails ''10.0.0.3'' state0)))"
proof -
  have a: "reply_getHostSSHClient worldNoSSH (trace state0) ''10.0.0.3'' = Inl ''dial tcp: i/o timeout''"
    by (simp add: worldNoSSH_def)
  have b: "reply_getHostSSHClient worldCmdFails (trace state0) ''10.0.0.3'' = Inr \<lparr>User = ''root''\<rparr>"
    "\<And>t cs. reply_CmdAsync worldCmdFails t ''10.0.0.3'' cs = Inl ''Process exited with status 1''"
    by (simp_all add: worldCmdFails_def world0_def)
  have c: "\<And>address. \<not> issuesKubeDeleteNode (EvCmdAsync ''10.0.0.3''
              (remoteCleanCmd worldCmdFails (rt state0) ''10.0.0.3'' address))"
    using not_isKubeDeleteNode_clean by (simp add: issuesKubeDeleteNode_def)
  show ?thesis
    using deleteMaster_no_client [OF a] deleteMaster_clean_fails [OF b(1) b(2)] c
    by (simp add: state0_def runtime0_def emit_def issuesKubeDeleteNode_def)
qed

text \<open>
  C5. When the master that \<open>deleteMaster\<close> removes is the last one (no address of the
  master list is left once it is excluded), the run issues no \<open>kubectl delete node\<close>
  against any host, whatever the outside world replies.
\<close>

theorem deleteMaster_last_master_no_delete_node:
  assumes "filter (\<lambda>ip. ip \<noteq> master) (GetMasterIPList (cluster (rt s))) = []"
  shows "\<exists>es. trace (snd (deleteMaster w master s)) = trace s @ es
              \<and> \<not> list_ex issuesKubeDeleteNode es"
proof -
  let ?Q = "\<lambda>e. \<not> issuesKubeDeleteNode e"
  have lvs: "\<And>yaml hs s1. emits ?Q s1 (snd (errgroup (updateLvscareOn w yaml) hs s1))"
    by (rule errgroup_emits) (rule updateLvscareOn_emits)
  have c: "\<And>address. ?Q (EvCmdAsync master (remoteCleanCmd w (rt s) master address))"
    using not_isKubeDeleteNode_clean [of w "rt s" master] by (simp add: issuesKubeDeleteNode_def)
  have q: "?Q (EvGetHostSSHClient master)" "?Q EvGetLocalHostAddresses"
    by (simp_all add: issuesKubeDeleteNode_def)
  have "emits ?Q s (snd (deleteMaster w master s))"
    using assms
    by (auto simp: deleteMaster_def call_defs Let_def split: sum.splits
        intro!: emits_emit c q emits_trans [OF _ lvs])
  then show ?thesis
    by (simp add: emits_def list_ex_iff list_all_iff)
qed

theorem deleteMaster_last_master_no_delete_node_witness:
  "filter (\<lambda>ip. ip \<noteq> ''10.0.0.2'') (GetMasterIPList (cluster (rt stateLast))) = []
   \<and> \<not> list_ex issuesKubeDeleteNode (trace (snd (deleteMaster world0 ''10.0.0.2'' stateLast)))
   \<and> fst (deleteMaster world0 ''10.0.0.2'' stateLast) = Inr ()"
proof -
  have a: "filter (\<lambda>ip. ip \<noteq> ''10.0.0.2'') (GetMasterIPList (cluster (rt stateLast))) = []"
    by (simp add: stateLast_def state0_def runtime0_def)
  have t: "trace stateLast = []"
    by (simp add: stateLast_def state0_def)
  have r: "fst (deleteMaster world0 ''10.0.0.2'' stateLast) = Inr ()"
    using a by (simp add: deleteMaster_def call_defs world0_replies Let_def updateLvscareOn_def
        stateLast_def state0_def runtime0_def)
  show ?thesis
    using deleteMaster_last_master_no_delete_node [OF a, of world0] a r by (auto simp: t)
qed



text \<open>
  C10. When no name that kubectl lists equals the \<open>hostname\<close> of the deleted host
  without regard to case, \<open>isHostName\<close> returns the empty string and no error; and
  \<open>deleteMaster\<close>, when other masters remain, the clean-up succeeded and master0 gives an
  SSH client, then sends \<open>kubectl delete node\<close> with an empty node name to master0.
  Blank names and equality without regard to case are those of the library's
  \<open>strings.TrimSpace\<close> and \<open>strings.ToLower\<close>, whatever they compute; of \<open>TrimSpace\<close> only
  that it leaves the empty string empty is used.
\<close>

theorem isHostName_no_match_empty_name:
  assumes "\<not> list_ex (\<lambda>h. TrimSpace w h \<noteq> [] \<and> ToLower w h = ToLower w hostName)
             (Split hostString '','')"
    and "TrimSpace w [] = []"
  shows
    "(let getNodes = ''kubectl get nodes | grep -v NAME  | awk '' @ [CHR 0x27] @ ''{print $1}'' @ [CHR 0x27]
      in reply_CmdToString w (trace s0) m getNodes '','' = Inr hostString \<longrightarrow>
         reply_CmdToString w (trace s0 @ [EvCmdToString m getNodes '','']) host ''hostname'' [] = Inr hostName \<longrightarrow>
         fst (isHostName w m host s0) = Inr [])
     \<and> (let getNodes = ''kubectl get nodes | grep -v NAME  | awk '' @ [CHR 0x27] @ ''{print $1}'' @ [CHR 0x27];
             m0 = GetMaster0IP (cluster (rt s));
             t1 = trace s @ [EvGetHostSSHClient master];
             clean = remoteCleanCmd w (rt s) master (reply_GetLocalHostAddresses w t1);
             t2 = t1 @ [EvGetLocalHostAddresses];
             t3 = t2 @ [EvCmdAsync master clean];
             t4 = t3 @ [EvCmdToString m0 getNodes '',''];
             t5 = t4 @ [EvCmdToString master ''hostname'' []]
         in reply_getHostSSHClient w (trace s) master = Inr ssh \<longrightarrow>
            reply_CmdAsync w t2 master clean = Inr () \<longrightarrow>
            filter (\<lambda>ip. ip \<noteq> master) (GetMasterIPList (cluster (rt s))) \<noteq> [] \<longrightarrow>
            reply_CmdToString w t3 m0 getNodes '','' = Inr hostString \<longrightarrow>
            reply_CmdToString w t4 master ''hostname'' [] = Inr hostName \<longrightarrow>
            reply_getHostSSHClient w t5 m0 = Inr ssh0 \<longrightarrow>
            (\<exists>es. trace (snd (deleteMaster w master s))
                   = t5 @ [EvGetHostSSHClient m0, EvCmdAsync m0 [''kubectl delete node '']] @ es))"
proof -
  let ?getNodes = "''kubectl get nodes | grep -v NAME  | awk '' @ [CHR 0x27] @ ''{print $1}'' @ [CHR 0x27]"
  let ?m0 = "GetMaster0IP (cluster (rt s))"
  let ?clean = "remoteCleanCmd w (rt s) master
                  (reply_GetLocalHostAddresses w (trace s @ [EvGetHostSSHClient master]))"
  let ?t3 = "trace s @ [EvGetHostSSHClient master, EvGetLocalHostAddresses, EvCmdAsync master ?clean]"
  have name: "findHostName w hostName (Split hostString '','') = []"
    using assms(1) by (rule findHostName_no_match)
  have a: "reply_CmdToString w (trace s0) m ?getNodes '','' = Inr hostString \<Longrightarrow>
           reply_CmdToString w (trace s0 @ [EvCmdToString m ?getNodes '','']) host ''hostname'' []
             = Inr hostName \<Longrightarrow>
           fst (isHostName w m host s0) = Inr []"
    using name by (simp add: isHostName_def call_defs)
  have b: "reply_getHostSSHClient w (trace s) master = Inr ssh \<Longrightarrow>
      reply_CmdAsync w (trace s @ [EvGetHostSSHClient master, EvGetLocalHostAddresses]) master ?clean
        = Inr () \<Longrightarrow>
      filter (\<lambda>ip. ip \<noteq> master) (GetMasterIPList (cluster (rt s))) \<noteq> [] \<Longrightarrow>
      reply_CmdToString w ?t3 ?m0 ?getNodes '','' = Inr hostString \<Longrightarrow>
      reply_CmdToString w (?t3 @ [EvCmdToString ?m0 ?getNodes '','']) master ''hostname'' []
        = Inr hostName \<Longrightarrow>
      reply_getHostSSHClient w (?t3 @ [EvCmdToString ?m0 ?getNodes '','',
          EvCmdToString master ''hostname'' []]) ?m0 = Inr ssh0 \<Longrightarrow>
      prefix (?t3 @ [EvCmdToString ?m0 ?getNodes '','', EvCmdToString master ''hostname'' [],
                     EvGetHostSSHClient ?m0, EvCmdAsync ?m0 [''kubectl delete node '']])
        (trace (snd (deleteMaster w master s)))"
    using name assms(2)
    by (auto simp: deleteMaster_def isHostName_def call_defs Let_def KubeDeleteNode_def
        split: sum.splits intro!: prefix_order.trans [OF _ lvscare_prefix])
  show ?thesis
    unfolding Let_def using a b by (auto simp: prefix_def)
qed

theorem isHostName_no_match_empty_name_witness:
  "\<not> list_ex (\<lambda>h. TrimSpace worldOtherName h \<noteq> []
                    \<and> ToLower worldOtherName h = ToLower worldOtherName ''izbp1-host'')
        (Split ''master-01,master-02,'' '','')
   \<and> TrimSpace worldOtherName [] = []
   \<and> fst (isHostName worldOtherName ''10.0.0.2'' ''10.0.0.3'' state0) = Inr []
   \<and> filter (\<lambda>ip. ip \<noteq> ''10.0.0.3'') (GetMasterIPList (cluster (rt state0))) \<noteq> []
   \<and> EvCmdAsync ''10.0.0.2'' [''kubectl delete node '']
       \<in> set (trace (snd (deleteMaster worldOtherName ''10.0.0.3'' state0)))"
proof -
  have a: "\<not> list_ex (\<lambda>h. asciiTrimSpace h \<noteq> [] \<and> asciiToLower h = asciiToLower ''izbp1-host'')
             (Split ''master-01,master-02,'' '','')"
    by code_simp
  have f: "TrimSpace worldOtherName = asciiTrimSpace" "ToLower worldOtherName = asciiToLower"
    by (simp_all add: worldOtherName_def world0_def)
  have n: "\<not> list_ex (\<lambda>h. TrimSpace worldOtherName h \<noteq> []
                    \<and> ToLower worldOtherName h = ToLower worldOtherName ''izbp1-host'')
             (Split ''master-01,master-02,'' '','')"
    using a by (simp add: f)
  have e: "TrimSpace worldOtherName [] = []"
    by (simp add: f asciiTrimSpace_def)
  have r: "\<And>t ip. reply_getHostSSHClient worldOtherName t ip = Inr \<lparr>User = ''root''\<rparr>"
    "\<And>t ip cs. reply_CmdAsync worldOtherName t ip cs = Inr ()"
    "\<And>t ip sp. reply_CmdToString worldOtherName t ip ''hostname'' sp = Inr ''izbp1-host''"
    "\<And>t ip sp. reply_CmdToString worldOtherName t ip
        (''kubectl get nodes | grep -v NAME  | awk '' @ [CHR 0x27] @ ''{print $1}'' @ [CHR 0x27]) sp
      = Inr ''master-01,master-02,''"
    by (simp_all add: worldOtherName_def world0_def)
  have s: "GetMaster0IP (cluster (rt state0)) = ''10.0.0.2''"
    "GetMasterIPList (cluster (rt state0)) = [''10.0.0.2'', ''10.0.0.3'']"
    by (simp_all add: state0_def runtime0_def)
  note w = isHostName_no_match_empty_name
             [OF n e, of state0 "''10.0.0.2''" "''10.0.0.3''" state0 "''10.0.0.3''"
                 "\<lparr>User = ''root''\<rparr>" "\<lparr>User = ''root''\<rparr>"]
  have 1: "fst (isHostName worldOtherName ''10.0.0.2'' ''10.0.0.3'' state0) = Inr []"
    using w r by (simp add: Let_def)
  have 2: "EvCmdAsync ''10.0.0.2'' [''kubectl delete node '']
             \<in> set (trace (snd (deleteMaster worldOtherName ''10.0.0.3'' state0)))"
    using w r s by (auto simp: Let_def)
  show ?thesis
    using n e 1 2 s by simp
qed


section \<open>Properties of the credential fetch\<close>

lemma replaceFrom_LF_free: "CHR 0x0A \<notin> set (replaceFrom [CHR 0x0A] [] s)"
  by (induction s) (simp_all add: HasPrefix_def)

lemma ReplaceAll_LF_free: "CHR 0x0A \<notin> set (ReplaceAll s [CHR 0x0A] [])"
  by (simp add: ReplaceAll_def replaceFrom_LF_free)

lemma GetJoinTokenHashAndKey_stores:
  assumes "reply_CmdToString w (trace s) (GetMaster0IP (cluster (rt s)))
             (''kubeadm init phase upload-certs --upload-certs -v '' @ Itoa (Vlog (rt s)))
             [CHR 0x0D, CHR 0x0A] = Inr output"
    and "length (Split output ''Using certificate key:'') = 2"
    and "\<And>t. reply_getHostSSHClient w t (GetMaster0IP (cluster (rt s))) = Inr ssh"
    and "\<And>t c. reply_Cmd w t (GetMaster0IP (cluster (rt s))) c = Inr out"
  shows "fst (GetJoinTokenHashAndKey w s) = Inr ()"
    and "rt (snd (GetJoinTokenHashAndKey w s))
         = decodeMaster0Output w out ((rt s)\<lparr>CertificateKey :=
             ReplaceAll (ReplaceAll (Split output ''Using certificate key:'' ! 1) [CHR 0x0D, CHR 0x0A] [])
               [CHR 0x0A] []\<rparr>)"
  using assms
  by (simp_all add: GetJoinTokenHashAndKey_def CmdToString_def getHostSSHClient_def Cmd_def Let_def)

text \<open>
  C2, as the code has it. \<open>GetJoinTokenHashAndKey\<close> returns an error exactly when a
  remote call fails (the upload-certs command, the SSH client for master0, or the
  token-create command) or the output of upload-certs does not split into two segments
  at the marker \<open>Using certificate key:\<close>. On an output that does split into two, the
  certificate key it stores is the second segment with every \<open>\r\n\<close> and then every
  \<open>\n\<close> removed, so it holds no line feed (a carriage return that no line feed follows
  is not removed); that key is in the runtime when a later call fails, and it is what
  \<open>decodeMaster0Output\<close> receives when none does.
\<close>

theorem GetJoinTokenHashAndKey_error_iff:
  "(let m0 = GetMaster0IP (cluster (rt s));
        upcmd = ''kubeadm init phase upload-certs --upload-certs -v '' @ Itoa (Vlog (rt s));
        tokcmd = ''kubeadm token create --print-join-command -v '' @ Itoa (Vlog (rt s));
        crlf = [CHR 0x0D, CHR 0x0A];
        t1 = trace s @ [EvCmdToString m0 upcmd crlf];
        t2 = t1 @ [EvGetHostSSHClient m0];
        r = fst (GetJoinTokenHashAndKey w s);
        s' = snd (GetJoinTokenHashAndKey w s)
    in case reply_CmdToString w (trace s) m0 upcmd crlf of
         Inl e \<Rightarrow> r = Inl (Error e)
       | Inr output \<Rightarrow>
           (isl r \<longleftrightarrow>
              length (Split output ''Using certificate key:'') \<noteq> 2
              \<or> isl (reply_getHostSSHClient w t1 m0) \<or> isl (reply_Cmd w t2 m0 tokcmd))
           \<and> (length (Split output ''Using certificate key:'') = 2 \<longrightarrow>
                (let key = ReplaceAll (ReplaceAll (Split output ''Using certificate key:'' ! 1) crlf [])
                             [CHR 0x0A] []
                 in CHR 0x0A \<notin> set key
                    \<and> (case reply_getHostSSHClient w t1 m0 of
                          Inl e \<Rightarrow> CertificateKey (rt s') = key
                        | Inr ssh \<Rightarrow>
                            (case reply_Cmd w t2 m0 tokcmd of
                               Inl e \<Rightarrow> CertificateKey (rt s') = key
                             | Inr out \<Rightarrow>
                                 rt s' = decodeMaster0Output w out ((rt s)\<lparr>CertificateKey := key\<rparr>))))))"
  by (auto simp: GetJoinTokenHashAndKey_def CmdToString_def getHostSSHClient_def Cmd_def Let_def
      ReplaceAll_LF_free split: sum.splits)

theorem GetJoinTokenHashAndKey_error_iff_witness:
  "length (Split uploadCertsOutput ''Using certificate key:'') = 2
   \<and> \<not> isl (fst (GetJoinTokenHashAndKey world0 state0))
   \<and> CertificateKey (rt (snd (GetJoinTokenHashAndKey world0 state0))) = ''8376c70aaaf285b7''
   \<and> CHR 0x0A \<notin> set (CertificateKey (rt (snd (GetJoinTokenHashAndKey world0 state0))))
   \<and> length (Split ''error execution phase upload-certs'' ''Using certificate key:'') \<noteq> 2
   \<and> isl (fst (GetJoinTokenHashAndKey worldNoMarker state0))"
proof -
  have l: "length (Split uploadCertsOutput ''Using certificate key:'') = 2"
    "length (Split ''error execution phase upload-certs'' ''Using certificate key:'') \<noteq> 2"
    by code_simp+
  have k: "ReplaceAll (ReplaceAll (Split uploadCertsOutput ''Using certificate key:'' ! 1)
             [CHR 0x0D, CHR 0x0A] []) [CHR 0x0A] [] = ''8376c70aaaf285b7''"
    by code_simp
  have c: "Itoa (Vlog runtime0) = ''5''"
    by code_simp
  have r: "\<And>t ip sp. reply_CmdToString world0 t ip
             ''kubeadm init phase upload-certs --upload-certs -v 5'' sp = Inr uploadCertsOutput"
    "\<And>t ip sp. reply_CmdToString worldNoMarker t ip
             ''kubeadm init phase upload-certs --upload-certs -v 5'' sp
           = Inr ''error execution phase upload-certs''"
    "\<And>t ip. reply_getHostSSHClient world0 t ip = Inr \<lparr>User = ''root''\<rparr>"
    "\<And>t ip c. reply_Cmd world0 t ip c
           = Inr ''kubeadm join 10.0.0.2:6443 --token abcdef.0123456789abcdef''"
    "\<And>out k. decodeMaster0Output world0 out k
           = k\<lparr>JoinToken := ''abcdef.0123456789abcdef'', TokenCaCertHash := ''sha256:00ff''\<rparr>"
    by (simp_all add: world0_def worldNoMarker_def HasPrefix_def)
  have s: "rt state0 = runtime0"
    by (simp add: state0_def)
  have 1: "\<not> isl (fst (GetJoinTokenHashAndKey world0 state0))
           \<and> CertificateKey (rt (snd (GetJoinTokenHashAndKey world0 state0))) = ''8376c70aaaf285b7''"
    using GetJoinTokenHashAndKey_error_iff [of state0 world0]
    by (simp add: Let_def s c r l k [unfolded One_nat_def])
  have 2: "isl (fst (GetJoinTokenHashAndKey worldNoMarker state0))"
    using GetJoinTokenHashAndKey_error_iff [of state0 worldNoMarker]
    by (simp add: Let_def s c r l)
  show ?thesis
    using 1 2 l by simp
qed

text \<open>
  C2 as the spec words it fails: on an output with exactly one marker, followed by
  \<open>\rab\rcd\<close>, the fetch succeeds and the key it stores is \<open>\rab\rcd\<close>, with both carriage
  returns, which are line-break characters, still in it.
\<close>

theorem GetJoinTokenHashAndKey_carriage_return_counterexample:
  "length (Split (''Using certificate key:'' @ [CHR 0x0D] @ ''ab'' @ [CHR 0x0D] @ ''cd'')
             ''Using certificate key:'') = 2
   \<and> fst (GetJoinTokenHashAndKey worldLoneCR state0) = Inr ()
   \<and> CertificateKey (rt (snd (GetJoinTokenHashAndKey worldLoneCR state0)))
       = [CHR 0x0D] @ ''ab'' @ [CHR 0x0D] @ ''cd''
   \<and> CHR 0x0D \<in> set (CertificateKey (rt (snd (GetJoinTokenHashAndKey worldLoneCR state0))))"
proof -
  let ?out = "''Using certificate key:'' @ [CHR 0x0D] @ ''ab'' @ [CHR 0x0D] @ ''cd''"
  have l: "length (Split ?out ''Using certificate key:'') = 2"
    by code_simp
  have k: "ReplaceAll (ReplaceAll (Split ?out ''Using certificate key:'' ! 1) [CHR 0x0D, CHR 0x0A] [])
             [CHR 0x0A] [] = [CHR 0x0D] @ ''ab'' @ [CHR 0x0D] @ ''cd''"
    by code_simp
  have r: "\<And>t ip c sp. reply_CmdToString worldLoneCR t ip c sp = Inr ?out"
    "\<And>t ip. reply_getHostSSHClient worldLoneCR t ip = Inr \<lparr>User = ''root''\<rparr>"
    "\<And>t ip c. reply_Cmd worldLoneCR t ip c
           = Inr ''kubeadm join 10.0.0.2:6443 --token abcdef.0123456789abcdef''"
    "\<And>out k. decodeMaster0Output worldLoneCR out k
           = k\<lparr>JoinToken := ''abcdef.0123456789abcdef'', TokenCaCertHash := ''sha256:00ff''\<rparr>"
    by (simp_all add: worldLoneCR_def world0_def)
  note st = GetJoinTokenHashAndKey_stores [of worldLoneCR state0, OF r(1) l r(2) r(3)]
  have "CertificateKey (rt (snd (GetJoinTokenHashAndKey worldLoneCR state0)))
          = [CHR 0x0D] @ ''ab'' @ [CHR 0x0D] @ ''cd''"
    by (simp only: st(2) r(4) k) simp
  then show ?thesis
    using l st(1) by simp
qed


section \<open>Facts about joining masters\<close>

lemma notFetch [simp]:
  "\<not> isFetch (EvGetHostSSHClient h)" "\<not> isFetch (EvCopy h src dst)"
  "\<not> isFetch EvMergeKubeadmConfig" "\<not> isFetch (EvWaitSSHReady n hs)"
  "\<not> isFetch (EvCopyStaticFiles hs)" "\<not> isFetch (EvGetRemoteHostName h)"
  "\<not> isFetch (EvGetCgroupDriverFromShell h)" "\<not> isFetch EvGetLocalHostAddresses"
  "\<not> isFetch EvLock" "\<not> isFetch EvUnlock" "\<not> isFetch (EvSetAPIServerEndpoint a)"
  "\<not> isFetch (EvSetJoinAdvertiseAddress a)" "\<not> isFetch (EvSetCgroupDriver a)"
  "\<not> isFetch EvMarshal"
  by (simp_all add: isFetch_def isUploadCerts_def isTokenCreate_def)

lemma isFetch_CmdAsync: "isFetch (EvCmdAsync h cs) = list_ex isFetchCmd cs"
  by (auto simp: isFetch_def isUploadCerts_def isTokenCreate_def isFetchCmd_def list_ex_iff)

lemma notFetchCmd_templates [simp]:
  "\<not> isFetchCmd (RemoteReplaceKubeConfig a b c d e)" "\<not> isFetchCmd (RemoteJoinMasterConfig a b)"
  "\<not> isFetchCmd (RemoteAddEtcHosts a b)" "\<not> isFetchCmd (RemoteUpdateEtcHosts a b)"
  "\<not> isFetchCmd RemoteCopyKubeConfig" "\<not> isFetchCmd RemoteNonRootCopyKubeConfig"
  by (simp_all add: isFetchCmd_def isUploadCertsCmd_def isTokenCreateCmd_def HasPrefix_def
      RemoteReplaceKubeConfig_def RemoteJoinMasterConfig_def RemoteAddEtcHosts_def
      RemoteUpdateEtcHosts_def RemoteCopyKubeConfig_def RemoteNonRootCopyKubeConfig_def)

text \<open>The join command of a master is a \<open>kubeadm join\<close>, not a command of the fetch.\<close>

lemma notFetchCmd_Command: "\<not> isFetchCmd (Command w k version JoinMaster)"
  using Command_upper(2) [of version w k] Command_lower(2) [of version w k]
  by (cases "fst (Compare version V1150)")
    (simp_all add: isFetchCmd_def isUploadCertsCmd_def isTokenCreateCmd_def HasPrefix_def
      JoinMaster115Upper_def JoinMaster115Lower_def)

text \<open>
  The commands of one joining master hold no command of the fetch, provided the
  helpers that build the registry-hosts, certificate and registry-login commands,
  whose bodies are not among the sources, build none.
\<close>

lemma notFetchCmd_JoinMasterCommands:
  assumes "\<And>k rest. \<not> isFetchCmd (addRegistryDomainToHosts w k @ rest)"
    and "\<And>sans ip hn cidr. \<not> isFetchCmd (RemoteCerts w sans ip hn cidr [])"
    and "\<And>k. \<not> isFetchCmd (GenLoginCommand w k)"
    and "\<not> isFetchCmd joinCmd"
  shows "\<not> list_ex isFetchCmd (JoinMasterCommands w k master joinCmd hostname)"
  using assms(1) [of k "[]"] assms by (simp add: JoinMasterCommands_def Let_def)

text \<open>
  A step that emits no fetch event carries on a run that has emitted none: the form in
  which the steps of \<open>joinMasters\<close> are chained.
\<close>

lemma step_emits:
  assumes "emits Q s s'" "emits Q s0 s"
  shows "emits Q s0 s'"
  using assms(2) assms(1) by (rule emits_trans)

lemma sendFileToHost_quiet:
  "emits (\<lambda>e. \<not> isFetch e) s (snd (sendFileToHost w src dst node s))"
  by (simp add: sendFileToHost_def call_defs emits_emit split: sum.splits)

lemma sendFileToHosts_quiet:
  "emits (\<lambda>e. \<not> isFetch e) s (snd (sendFileToHosts w hosts src dst s))"
  unfolding sendFileToHosts_def by (rule errgroup_emits) (rule sendFileToHost_quiet)

lemma sendKubeConfigFile_quiet:
  "emits (\<lambda>e. \<not> isFetch e) s (snd (sendKubeConfigFile w hosts f s))"
  by (simp add: sendKubeConfigFile_def Let_def sendFileToHosts_quiet)

lemma sendKubeConfigFiles_quiet:
  "emits (\<lambda>e. \<not> isFetch e) s (snd (sendKubeConfigFiles w hosts fs s))"
proof (induction fs arbitrary: s)
  case Nil
  then show ?case by simp
next
  case (Cons f fs)
  obtain r s1 where f: "sendKubeConfigFile w hosts f s = (r, s1)"
    by (cases "sendKubeConfigFile w hosts f s")
  have 1: "emits (\<lambda>e. \<not> isFetch e) s s1"
    using sendKubeConfigFile_quiet [of s w hosts f] f by simp
  show ?case
    using f 1 step_emits [OF Cons.IH [of s1] 1] by (simp split: sum.splits)
qed

lemma replaceKubeConfigLoop_quiet:
  "emits (\<lambda>e. \<not> isFetch e) s (snd (replaceKubeConfigLoop w vs s))"
proof (induction vs arbitrary: s)
  case Nil
  then show ?case by simp
next
  case (Cons v vs)
  let ?s2 = "emit (EvCmdAsync v [RemoteReplaceKubeConfig KUBESCHEDULERCONFIGFILE v
                 KUBECONTROLLERCONFIGFILE v KUBESCHEDULERCONFIGFILE]) (emit (EvGetHostSSHClient v) s)"
  have 2: "emits (\<lambda>e. \<not> isFetch e) s ?s2"
    by (simp add: emits_emit isFetch_CmdAsync)
  show ?case
    using 2 step_emits [OF Cons.IH [of ?s2] 2]
    by (simp add: call_defs Let_def emits_emit isFetch_CmdAsync split: sum.splits)
qed

lemma SendJoinMasterKubeConfigs_quiet:
  "emits (\<lambda>e. \<not> isFetch e) s (snd (SendJoinMasterKubeConfigs w masters files s))"
proof -
  obtain r s1 where f: "sendKubeConfigFiles w masters files s = (r, s1)"
    by (cases "sendKubeConfigFiles w masters files s")
  have 1: "emits (\<lambda>e. \<not> isFetch e) s s1"
    using sendKubeConfigFiles_quiet [of s w masters files] f by simp
  have 2: "emits (\<lambda>e. \<not> isFetch e) s (snd (replaceKubeConfigLoop w masters s1))"
    using replaceKubeConfigLoop_quiet 1 by (rule step_emits)
  show ?thesis
    using f 1 2
    by (simp add: SendJoinMasterKubeConfigs_def ReplaceKubeConfigV1991V1992_def split: sum.splits)
qed

lemma sendRegistryCert_quiet:
  "emits (\<lambda>e. \<not> isFetch e) s (snd (sendRegistryCert w hosts s))"
proof -
  let ?cf = "RegConfig (rt s)"
  let ?src = "getCertsDir (rt s) @ ''/'' @ Domain ?cf @ ''.crt''"
  let ?dst = "DockerCertDir w @ ''/'' @ Domain ?cf @ '':'' @ Port ?cf @ ''/'' @ Domain ?cf @ ''.crt''"
  obtain r s1 where f: "sendFileToHosts w hosts ?src ?dst s = (r, s1)"
    by (cases "sendFileToHosts w hosts ?src ?dst s")
  have 1: "emits (\<lambda>e. \<not> isFetch e) s s1"
    using sendFileToHosts_quiet [of s w hosts ?src ?dst] f by simp
  show ?thesis
    using f 1 step_emits [OF sendFileToHosts_quiet 1]
    by (simp add: sendRegistryCert_def Let_def split: sum.splits)
qed

lemma sendNewCertAndKey_quiet:
  "emits (\<lambda>e. \<not> isFetch e) s (snd (sendNewCertAndKey w hosts s))"
  by (simp add: sendNewCertAndKey_def sendFileToHosts_quiet)

lemma joinMasterConfig_quiet:
  "emits (\<lambda>e. \<not> isFetch e) s (snd (joinMasterConfig w ip s))"
  by (simp add: joinMasterConfig_def setAPIServerEndpoint_def setJoinAdvertiseAddress_def
      setCgroupDriver_def call_defs Let_def emits_emit split: sum.splits)

lemma sendJoinCPConfigTo_quiet:
  "emits (\<lambda>e. \<not> isFetch e) s (snd (sendJoinCPConfigTo w ip s))"
proof -
  obtain r s1 where f: "joinMasterConfig w ip s = (r, s1)"
    by (cases "joinMasterConfig w ip s")
  have 1: "emits (\<lambda>e. \<not> isFetch e) s s1"
    using joinMasterConfig_quiet [of s w ip] f by simp
  show ?thesis
    using f 1
    by (simp add: sendJoinCPConfigTo_def call_defs Let_def emits_emit isFetch_CmdAsync
        split: sum.splits failure.splits)
qed

lemma sendJoinCPConfig_quiet:
  "emits (\<lambda>e. \<not> isFetch e) s (snd (sendJoinCPConfig w masters s))"
  unfolding sendJoinCPConfig_def by (rule errgroup_emits) (rule sendJoinCPConfigTo_quiet)

lemma joinMastersLoop_quiet:
  assumes "\<And>k rest. \<not> isFetchCmd (addRegistryDomainToHosts w k @ rest)"
    and "\<And>sans ip hn cidr. \<not> isFetchCmd (RemoteCerts w sans ip hn cidr [])"
    and "\<And>k. \<not> isFetchCmd (GenLoginCommand w k)"
    and "\<not> isFetchCmd cmd"
  shows "emits (\<lambda>e. \<not> isFetch e) s (snd (joinMastersLoop w cmd masters s))"
proof (induction masters arbitrary: s)
  case Nil
  then show ?case by simp
next
  case (Cons master masters)
  have cmds: "\<And>k hostname. \<not> list_ex isFetchCmd (JoinMasterCommands w k master cmd hostname)"
    using assms by (rule notFetchCmd_JoinMasterCommands)
  have step: "\<And>cmds. \<not> list_ex isFetchCmd cmds \<Longrightarrow> emits (\<lambda>e. \<not> isFetch e) s
      (snd (joinMastersLoop w cmd masters
        (emit (EvCmdAsync master cmds) (emit (EvGetHostSSHClient master)
          (emit (EvGetRemoteHostName master) s)))))"
    by (rule step_emits [OF Cons.IH]) (simp add: emits_emit isFetch_CmdAsync)
  show ?case
    using cmds
    by (simp add: call_defs Let_def emits_emit step isFetch_CmdAsync split: sum.splits)
qed

lemma oracles_quiet:
  "emits (\<lambda>e. \<not> isFetch e) s (snd (MergeKubeadmConfig w s))"
  "emits (\<lambda>e. \<not> isFetch e) s (snd (WaitSSHReady w n hosts s))"
  "emits (\<lambda>e. \<not> isFetch e) s (snd (CopyStaticFiles w hosts s))"
  by (simp_all add: call_defs emits_emit split: sum.splits)


lemma fetch_filters_quiet:
  assumes "list_all (\<lambda>e. \<not> isFetch e) es"
  shows "filter isUploadCerts es = []" "filter isTokenCreate es = []"
  using assms by (induction es) (auto simp: isFetch_def)

text \<open>
  The fetch itself: one upload-certs command, sent to master0, and then at most one
  token-create command, sent to master0 as well; both when the fetch succeeds.
\<close>

lemma GetJoinTokenHashAndKey_fetch:
  "\<exists>es. trace (snd (GetJoinTokenHashAndKey w s)) = trace s @ es
        \<and> filter isUploadCerts es
            = [EvCmdToString (GetMaster0IP (cluster (rt s)))
                 (''kubeadm init phase upload-certs --upload-certs -v '' @ Itoa (Vlog (rt s)))
                 [CHR 0x0D, CHR 0x0A]]
        \<and> (filter isTokenCreate es = []
             \<or> filter isTokenCreate es
                 = [EvCmd (GetMaster0IP (cluster (rt s)))
                      (''kubeadm token create --print-join-command -v '' @ Itoa (Vlog (rt s)))])
        \<and> (fst (GetJoinTokenHashAndKey w s) = Inr () \<longrightarrow>
               filter isTokenCreate es
                 = [EvCmd (GetMaster0IP (cluster (rt s)))
                      (''kubeadm token create --print-join-command -v '' @ Itoa (Vlog (rt s)))])"
  by (simp add: GetJoinTokenHashAndKey_def call_defs Let_def isUploadCerts_def isTokenCreate_def
      isUploadCertsCmd_def isTokenCreateCmd_def HasPrefix_def split: sum.splits)

lemma step_result:
  assumes "x = (r, s')" "emits Q s (snd x)" "emits Q s0 s"
  shows "emits Q s0 s'"
  using assms by (auto intro: emits_trans)

text \<open>\<open>joinMasters\<close> once the merge and the wait have succeeded, by the results of its steps.\<close>

lemma joinMasters_steps:
  assumes "masters \<noteq> []"
    and "reply_MergeKubeadmConfig w (trace s) (rt s) = Inr k1"
    and "reply_WaitSSHReady w (trace s @ [EvMergeKubeadmConfig]) 6 masters = Inr ()"
    and "s2 = emit (EvWaitSSHReady 6 masters) (emit EvMergeKubeadmConfig (s\<lparr>rt := k1\<rparr>))"
    and "GetJoinTokenHashAndKey w s2 = (r3, s3)"
    and "CopyStaticFiles w masters s3 = (r4, s4)"
    and "SendJoinMasterKubeConfigs w masters [AdminConf, ControllerConf, SchedulerConf] s4 = (r5, s5)"
    and "sendRegistryCert w masters s5 = (r6, s6)"
    and "sendNewCertAndKey w masters s6 = (r7, s7)"
    and "sendJoinCPConfig w masters s7 = (r8, s8)"
  shows "joinMasters w masters s
      = (case r3 of Inl err \<Rightarrow> (Inl err, s3) | Inr _ \<Rightarrow>
        (case r4 of Inl err \<Rightarrow> (Inl (Error err), s4) | Inr _ \<Rightarrow>
        (case r5 of Inl err \<Rightarrow> (Inl err, s5) | Inr _ \<Rightarrow>
        (case r6 of Inl err \<Rightarrow> (Inl err, s6) | Inr _ \<Rightarrow>
        (case r7 of Inl err \<Rightarrow> (Inl err, s7) | Inr _ \<Rightarrow>
        (case r8 of Inl err \<Rightarrow> (Inl err, s8) | Inr _ \<Rightarrow>
        (let cmd = Command w (rt s8) (getKubeVersion (rt s8)) JoinMaster
         in if cmd = []
            then (Inl (Error (''failed to get join master command, kubernetes version is ''
                              @ getKubeVersion (rt s8))), s8)
            else joinMastersLoop w cmd masters s8)))))))"
  using assms
  by (simp add: joinMasters_def MergeKubeadmConfig_def WaitSSHReady_def split: sum.splits)

text \<open>After the fetch, \<open>joinMasters\<close> emits no fetch event any more.\<close>

lemma joinMasters_after_fetch:
  assumes "masters \<noteq> []"
    and "reply_MergeKubeadmConfig w (trace s) (rt s) = Inr k1"
    and "reply_WaitSSHReady w (trace s @ [EvMergeKubeadmConfig]) 6 masters = Inr ()"
    and "s2 = emit (EvWaitSSHReady 6 masters) (emit EvMergeKubeadmConfig (s\<lparr>rt := k1\<rparr>))"
    and "\<And>k rest. \<not> isFetchCmd (addRegistryDomainToHosts w k @ rest)"
    and "\<And>sans ip hn cidr. \<not> isFetchCmd (RemoteCerts w sans ip hn cidr [])"
    and "\<And>k. \<not> isFetchCmd (GenLoginCommand w k)"
  shows "emits (\<lambda>e. \<not> isFetch e) (snd (GetJoinTokenHashAndKey w s2)) (snd (joinMasters w masters s))"
    and "fst (joinMasters w masters s) = Inr () \<longrightarrow> fst (GetJoinTokenHashAndKey w s2) = Inr ()"
proof -
  let ?Q = "\<lambda>e. \<not> isFetch e"
  obtain r3 s3 where g: "GetJoinTokenHashAndKey w s2 = (r3, s3)"
    by (cases "GetJoinTokenHashAndKey w s2")
  obtain r4 s4 where c: "CopyStaticFiles w masters s3 = (r4, s4)"
    by (cases "CopyStaticFiles w masters s3")
  obtain r5 s5 where k: "SendJoinMasterKubeConfigs w masters [AdminConf, ControllerConf, SchedulerConf] s4
      = (r5, s5)"
    by (cases "SendJoinMasterKubeConfigs w masters [AdminConf, ControllerConf, SchedulerConf] s4")
  obtain r6 s6 where rc: "sendRegistryCert w masters s5 = (r6, s6)"
    by (cases "sendRegistryCert w masters s5")
  obtain r7 s7 where nc: "sendNewCertAndKey w masters s6 = (r7, s7)"
    by (cases "sendNewCertAndKey w masters s6")
  obtain r8 s8 where jc: "sendJoinCPConfig w masters s7 = (r8, s8)"
    by (cases "sendJoinCPConfig w masters s7")
  have 4: "emits ?Q s3 s4"
    by (rule step_result [OF c oracles_quiet(3) emits_refl])
  have 5: "emits ?Q s3 s5"
    by (rule step_result [OF k SendJoinMasterKubeConfigs_quiet 4])
  have 6: "emits ?Q s3 s6"
    by (rule step_result [OF rc sendRegistryCert_quiet 5])
  have 7: "emits ?Q s3 s7"
    by (rule step_result [OF nc sendNewCertAndKey_quiet 6])
  have 8: "emits ?Q s3 s8"
    by (rule step_result [OF jc sendJoinCPConfig_quiet 7])
  have 9: "emits ?Q s3 (snd (joinMastersLoop w (Command w (rt s8) (getKubeVersion (rt s8)) JoinMaster)
      masters s8))"
    using joinMastersLoop_quiet [OF assms(5-7) notFetchCmd_Command] 8 by (rule step_emits)
  note unfold = joinMasters_steps [OF assms(1-4) g c k rc nc jc]
  show "emits ?Q (snd (GetJoinTokenHashAndKey w s2)) (snd (joinMasters w masters s))"
    using g 4 5 6 7 8 9 by (simp add: unfold Let_def split: sum.splits)
  show "fst (joinMasters w masters s) = Inr () \<longrightarrow> fst (GetJoinTokenHashAndKey w s2) = Inr ()"
    using g by (simp add: unfold split: sum.splits)
qed

text \<open>In the world where every call succeeds, \<open>joinMasters\<close> ends without error.\<close>

lemma errgroup_ok:
  assumes "\<And>h s. fst (f h s) = Inr ()"
  shows "fst (errgroup f hs s) = Inr ()"
proof (induction hs arbitrary: s)
  case Nil
  then show ?case by simp
next
  case (Cons h hs)
  obtain r s1 where f: "f h s = (r, s1)" by (cases "f h s")
  have "r = Inr ()"
    using assms [of h s] f by simp
  then show ?case
    using f Cons.IH [of s1] by simp
qed

lemma sendFileToHosts_world0: "fst (sendFileToHosts world0 hosts src dst s) = Inr ()"
  unfolding sendFileToHosts_def
  by (rule errgroup_ok) (simp add: sendFileToHost_def call_defs world0_replies world0_join_replies)

lemma sendKubeConfigFiles_world0: "fst (sendKubeConfigFiles world0 hosts fs s) = Inr ()"
proof (induction fs arbitrary: s)
  case Nil
  then show ?case by simp
next
  case (Cons f fs)
  obtain r s1 where f: "sendKubeConfigFile world0 hosts f s = (r, s1)"
    by (cases "sendKubeConfigFile world0 hosts f s")
  have "r = Inr ()"
    using sendFileToHosts_world0 [of hosts _ _ s] f
    by (simp add: sendKubeConfigFile_def Let_def) (metis fst_conv)
  then show ?case
    using f Cons.IH [of s1] by simp
qed

lemma SendJoinMasterKubeConfigs_world0:
  "fst (SendJoinMasterKubeConfigs world0 masters files s) = Inr ()"
proof -
  obtain r s1 where f: "sendKubeConfigFiles world0 masters files s = (r, s1)"
    by (cases "sendKubeConfigFiles world0 masters files s")
  have "r = Inr ()"
    using sendKubeConfigFiles_world0 [of masters files s] f by simp
  then show ?thesis
    using f by (simp add: SendJoinMasterKubeConfigs_def)
qed

lemma sendRegistryCert_world0: "fst (sendRegistryCert world0 hosts s) = Inr ()"
proof -
  let ?cf = "RegConfig (rt s)"
  let ?src = "getCertsDir (rt s) @ ''/'' @ Domain ?cf @ ''.crt''"
  let ?dst = "DockerCertDir world0 @ ''/'' @ Domain ?cf @ '':'' @ Port ?cf @ ''/'' @ Domain ?cf @ ''.crt''"
  obtain r s1 where f: "sendFileToHosts world0 hosts ?src ?dst s = (r, s1)"
    by (cases "sendFileToHosts world0 hosts ?src ?dst s")
  have "r = Inr ()"
    using sendFileToHosts_world0 [of hosts ?src ?dst s] f by simp
  then show ?thesis
    using f by (simp add: sendRegistryCert_def Let_def sendFileToHosts_world0)
qed

lemma sendJoinCPConfig_world0: "fst (sendJoinCPConfig world0 masters s) = Inr ()"
  unfolding sendJoinCPConfig_def
  by (rule errgroup_ok)
    (simp add: sendJoinCPConfigTo_def joinMasterConfig_def setAPIServerEndpoint_def
      setJoinAdvertiseAddress_def setCgroupDriver_def call_defs Let_def world0_replies
      world0_join_replies)

lemma joinMastersLoop_world0: "fst (joinMastersLoop world0 cmd masters s) = Inr ()"
  by (induction masters arbitrary: s) (simp_all add: call_defs Let_def world0_replies world0_join_replies)

lemma GetJoinTokenHashAndKey_world0: "fst (GetJoinTokenHashAndKey world0 s) = Inr ()"
proof -
  have "length (Split uploadCertsOutput ''Using certificate key:'') = 2"
    by code_simp
  then show ?thesis
    by (simp add: GetJoinTokenHashAndKey_def call_defs Let_def world0_replies world0_join_replies)
qed

lemma Command_JoinMaster_not_empty: "Command w k version JoinMaster \<noteq> []"
  using Command_upper(2) [of version w k] Command_lower(2) [of version w k]
  by (cases "fst (Compare version V1150)") (simp_all add: vlogToStr_def)

lemma joinMasters_world0:
  assumes "masters \<noteq> []"
  shows "fst (joinMasters world0 masters s) = Inr ()"
proof -
  define s2 where "s2 = emit (EvWaitSSHReady 6 masters) (emit EvMergeKubeadmConfig (s\<lparr>rt := rt s\<rparr>))"
  obtain r3 s3 where g: "GetJoinTokenHashAndKey world0 s2 = (r3, s3)"
    by (cases "GetJoinTokenHashAndKey world0 s2")
  obtain r4 s4 where c: "CopyStaticFiles world0 masters s3 = (r4, s4)"
    by (cases "CopyStaticFiles world0 masters s3")
  obtain r5 s5 where k: "SendJoinMasterKubeConfigs world0 masters [AdminConf, ControllerConf, SchedulerConf] s4
      = (r5, s5)"
    by (cases "SendJoinMasterKubeConfigs world0 masters [AdminConf, ControllerConf, SchedulerConf] s4")
  obtain r6 s6 where rc: "sendRegistryCert world0 masters s5 = (r6, s6)"
    by (cases "sendRegistryCert world0 masters s5")
  obtain r7 s7 where nc: "sendNewCertAndKey world0 masters s6 = (r7, s7)"
    by (cases "sendNewCertAndKey world0 masters s6")
  obtain r8 s8 where jc: "sendJoinCPConfig world0 masters s7 = (r8, s8)"
    by (cases "sendJoinCPConfig world0 masters s7")
  have r: "r3 = Inr ()" "r4 = Inr ()" "r5 = Inr ()" "r6 = Inr ()" "r7 = Inr ()" "r8 = Inr ()"
  proof -
    show "r3 = Inr ()"
      using GetJoinTokenHashAndKey_world0 [of s2] g by simp
    show "r4 = Inr ()"
      using c by (simp add: CopyStaticFiles_def world0_join_replies)
    show "r5 = Inr ()"
      using SendJoinMasterKubeConfigs_world0 [of masters "[AdminConf, ControllerConf, SchedulerConf]" s4] k
      by simp
    show "r6 = Inr ()"
      using sendRegistryCert_world0 [of masters s5] rc by simp
    show "r7 = Inr ()"
      using sendFileToHosts_world0 [of masters "getPKIPath (rt s6)" "KubeDefaultCertPath world0" s6] nc
      by (simp add: sendNewCertAndKey_def)
    show "r8 = Inr ()"
      using sendJoinCPConfig_world0 [of masters s7] jc by simp
  qed
  show ?thesis
    using joinMasters_steps [OF assms world0_join_replies(6) world0_join_replies(5) s2_def g c k rc nc jc]
    by (simp add: r Let_def Command_JoinMaster_not_empty joinMastersLoop_world0)
qed


section \<open>Properties of joining masters\<close>



section \<open>Facts about the state lock\<close>

lemma lockAfter_append: "lockAfter held (es @ fs) = lockAfter (lockAfter held es) fs"
  by (induction held es rule: lockAfter.induct) simp_all

lemma underLock_append: "underLock held (es @ fs) = underLock held es @ underLock (lockAfter held es) fs"
  by (induction held es rule: underLock.induct) simp_all

lemma outsideLock_append:
  "outsideLock held (es @ fs) = outsideLock held es @ outsideLock (lockAfter held es) fs"
  by (induction held es rule: outsideLock.induct) simp_all

text \<open>
  The events of a fan-out whose tasks never panic are the events of its tasks, one
  task after the other.
\<close>

lemma errgroup_concat:
  assumes "\<And>h s. \<exists>es. trace (snd (f h s)) = trace s @ es \<and> R h es"
    and "\<And>h s m. fst (f h s) \<noteq> Inl (Panic m)"
  shows "\<exists>ess. trace (snd (errgroup f hs s)) = trace s @ concat ess \<and> list_all2 R hs ess"
proof (induction hs arbitrary: s)
  case Nil
  then show ?case by simp
next
  case (Cons h hs)
  obtain r s1 where f: "f h s = (r, s1)" by (cases "f h s")
  obtain es where es: "trace s1 = trace s @ es" "R h es"
    using assms(1) [of h s] f by auto
  have np: "\<And>m. r \<noteq> Inl (Panic m)"
    using assms(2) [of h s] f by simp
  obtain r2 s2 where e: "errgroup f hs s1 = (r2, s2)" by (cases "errgroup f hs s1")
  obtain ess where ess: "trace s2 = trace s1 @ concat ess" "list_all2 R hs ess"
    using Cons.IH [of s1] e by auto
  have "snd (errgroup f (h # hs) s) = s2"
    using f e np by (auto split: sum.splits failure.splits)
  then have "trace (snd (errgroup f (h # hs) s)) = trace s @ concat (es # ess)"
    using es(1) ess(1) by simp
  moreover have "list_all2 R (h # hs) (es # ess)"
    using es(2) ess(2) by simp
  ultimately show ?case by blast
qed

lemma sendJoinCPConfigTo_no_panic: "fst (sendJoinCPConfigTo w ip s) \<noteq> Inl (Panic m)"
  by (simp add: sendJoinCPConfigTo_def joinMasterConfig_def call_defs Let_def split: sum.splits)

lemma sendJoinCPConfigTo_lock:
  "\<exists>es. trace (snd (sendJoinCPConfigTo w ip s)) = trace s @ es
        \<and> (\<not> lockAfter False es
            \<and> filter isConfigAccess (outsideLock False es) = []
            \<and> filter isNetworkIO (underLock False es) = [EvGetCgroupDriverFromShell ip])"
  by (simp add: sendJoinCPConfigTo_def joinMasterConfig_def setAPIServerEndpoint_def
      setJoinAdvertiseAddress_def setCgroupDriver_def call_defs Let_def split: sum.splits)

lemma tasks_lock:
  assumes "list_all2 (\<lambda>h es. \<not> lockAfter False es
              \<and> filter isConfigAccess (outsideLock False es) = []
              \<and> filter isNetworkIO (underLock False es) = [EvGetCgroupDriverFromShell h]) hs ess"
  shows "\<not> lockAfter False (concat ess)
         \<and> filter isConfigAccess (outsideLock False (concat ess)) = []
         \<and> filter isNetworkIO (underLock False (concat ess)) = map EvGetCgroupDriverFromShell hs"
  using assms
  by (induction hs ess rule: list_all2_induct)
    (simp_all add: lockAfter_append underLock_append outsideLock_append)

section \<open>Properties of rendering the join configuration\<close>

text \<open>
  C9, as the code has it, for the events of the tasks of \<open>sendJoinCPConfig\<close> taken one
  task after the other. Every access to the shared configuration (the three setters,
  the marshalling) happens while the task holds the state lock; the lock is free again
  at the end; and the calls over the network made while the lock is held are exactly
  the probes of the cgroup driver, one per master: the SSH client and the write of the
  rendered document come after the lock's release, the probe before it.
\<close>

theorem sendJoinCPConfig_lock_discipline:
  "\<exists>es. trace (snd (sendJoinCPConfig w joinMaster s)) = trace s @ es
        \<and> filter isConfigAccess (outsideLock False es) = []
        \<and> filter isNetworkIO (underLock False es) = map EvGetCgroupDriverFromShell joinMaster
        \<and> \<not> lockAfter False es"
proof -
  obtain ess where ess: "trace (snd (sendJoinCPConfig w joinMaster s)) = trace s @ concat ess"
    "list_all2 (\<lambda>h es. \<not> lockAfter False es
              \<and> filter isConfigAccess (outsideLock False es) = []
              \<and> filter isNetworkIO (underLock False es) = [EvGetCgroupDriverFromShell h]) joinMaster ess"
    unfolding sendJoinCPConfig_def
    using errgroup_concat [of "sendJoinCPConfigTo w", OF sendJoinCPConfigTo_lock sendJoinCPConfigTo_no_panic]
    by blast
  show ?thesis
    using ess(1) tasks_lock [OF ess(2)] by blast
qed

text \<open>
  C9 as the spec words it fails: joining one master, the probe of its cgroup driver, a
  call over the network, is made while the lock is held.
\<close>

theorem sendJoinCPConfig_network_under_lock_counterexample:
  "isNetworkIO (EvGetCgroupDriverFromShell ''10.0.0.4'')
   \<and> underLock False (trace (snd (sendJoinCPConfig world0 [''10.0.0.4''] state0)))
       = [EvSetAPIServerEndpoint ''10.0.0.2:6443'', EvSetJoinAdvertiseAddress ''10.0.0.4'',
          EvGetCgroupDriverFromShell ''10.0.0.4'', EvSetCgroupDriver ''systemd'', EvMarshal]
   \<and> list_ex isNetworkIO (underLock False (trace (snd (sendJoinCPConfig world0 [''10.0.0.4''] state0))))"
proof -
  have "underLock False (trace (snd (sendJoinCPConfig world0 [''10.0.0.4''] state0)))
       = [EvSetAPIServerEndpoint ''10.0.0.2:6443'', EvSetJoinAdvertiseAddress ''10.0.0.4'',
          EvGetCgroupDriverFromShell ''10.0.0.4'', EvSetCgroupDriver ''systemd'', EvMarshal]"
    by (simp add: sendJoinCPConfig_def sendJoinCPConfigTo_def joinMasterConfig_def
        setAPIServerEndpoint_def setJoinAdvertiseAddress_def setCgroupDriver_def call_defs Let_def
        world0_replies world0_join_replies state0_def runtime0_def)
  then show ?thesis by simp
qed


end
